theory Spec2Isabelle
  imports Complex_Main
begin

section \<open>The sources\<close>

text \<open>
  The repository holds two slider components. \<open>src/src/app/components/ThreeSliderDraggable.tsx\<close>
  is driven by pointer drags and arrow keys; \<open>src/src/app/components/ThreeSlider.tsx\<close> is
  driven by the wheel, by touches and by arrow keys. The file of \<open>ThreeSlider\<close> holds two
  versions of the component one after the other; the model follows the first (lines 1 to
  479, with the layout constants written in the component), whose \<open>animate\<close> starts at line
  160 and whose handlers start at line 339. Definitions named \<open>drag_\<close> follow
  \<open>ThreeSliderDraggable\<close>, definitions named \<open>slider_\<close> follow \<open>ThreeSlider\<close>, and the rest is
  code that both share word for word.
\<close>


section \<open>JavaScript numbers\<close>

text \<open>
  The sliders compute with JavaScript numbers. A number is modelled as a real or one of the
  three special values that the arithmetic of the source can produce: \<open>Infinity\<close>,
  \<open>-Infinity\<close> and \<open>NaN\<close> (a division by zero, a remainder by zero). Rounding, overflow
  and the sign of zero are not modelled: a finite result is the exact real result. The one
  exception is the second model of the wrap layout, in double precision, which rounds.

  Scroll positions, momentum, timestamps and pointer coordinates are reals: they are built from
  finite event data by \<open>+\<close>, \<open>-\<close> and \<open>*\<close> only. Everything downstream of a division (the velocities,
  the distortion factors, the wrapped slide coordinates and the displaced vertices) is a
  \<open>jsnum\<close>.
\<close>

datatype jsnum = Fin real | PInf | NInf | NaN

fun is_fin :: "jsnum \<Rightarrow> bool" where
  "is_fin (Fin a) = True"
| "is_fin PInf = False"
| "is_fin NInf = False"
| "is_fin NaN = False"

fun jneg :: "jsnum \<Rightarrow> jsnum" where
  "jneg (Fin a) = Fin (- a)"
| "jneg PInf = NInf"
| "jneg NInf = PInf"
| "jneg NaN = NaN"

fun jadd :: "jsnum \<Rightarrow> jsnum \<Rightarrow> jsnum" where
  "jadd (Fin a) (Fin b) = Fin (a + b)"
| "jadd (Fin a) PInf = PInf"
| "jadd (Fin a) NInf = NInf"
| "jadd PInf (Fin b) = PInf"
| "jadd PInf PInf = PInf"
| "jadd PInf NInf = NaN"
| "jadd NInf (Fin b) = NInf"
| "jadd NInf NInf = NInf"
| "jadd NInf PInf = NaN"
| "jadd NaN y = NaN"
| "jadd x NaN = NaN"

definition jsub :: "jsnum \<Rightarrow> jsnum \<Rightarrow> jsnum" where
  "jsub x y = jadd x (jneg y)"

text \<open>The sign of an infinite product: positive when \<open>pos\<close>, negative otherwise.\<close>

definition inf_of_sign :: "bool \<Rightarrow> jsnum" where
  "inf_of_sign pos = (if pos then PInf else NInf)"

fun jmul :: "jsnum \<Rightarrow> jsnum \<Rightarrow> jsnum" where
  "jmul (Fin a) (Fin b) = Fin (a * b)"
| "jmul (Fin a) PInf = (if a = 0 then NaN else inf_of_sign (0 < a))"
| "jmul (Fin a) NInf = (if a = 0 then NaN else inf_of_sign (a < 0))"
| "jmul PInf (Fin b) = (if b = 0 then NaN else inf_of_sign (0 < b))"
| "jmul NInf (Fin b) = (if b = 0 then NaN else inf_of_sign (b < 0))"
| "jmul PInf PInf = PInf"
| "jmul PInf NInf = NInf"
| "jmul NInf PInf = NInf"
| "jmul NInf NInf = PInf"
| "jmul NaN y = NaN"
| "jmul x NaN = NaN"

text \<open>
  Division: a finite non-zero number over zero is infinite, \<open>0 / 0\<close> and
  \<open>Infinity / Infinity\<close> are \<open>NaN\<close>. The zero divisor is taken as \<open>+0\<close>.
\<close>

fun jdiv :: "jsnum \<Rightarrow> jsnum \<Rightarrow> jsnum" where
  "jdiv (Fin a) (Fin b) =
     (if b \<noteq> 0 then Fin (a / b) else if a = 0 then NaN else inf_of_sign (0 < a))"
| "jdiv (Fin a) PInf = Fin 0"
| "jdiv (Fin a) NInf = Fin 0"
| "jdiv PInf (Fin b) = inf_of_sign (0 \<le> b)"
| "jdiv NInf (Fin b) = inf_of_sign (b < 0)"
| "jdiv PInf PInf = NaN"
| "jdiv PInf NInf = NaN"
| "jdiv NInf PInf = NaN"
| "jdiv NInf NInf = NaN"
| "jdiv NaN y = NaN"
| "jdiv x NaN = NaN"

text \<open>
  The \<open>%\<close> operator is the truncated remainder: the quotient is rounded toward zero, so the
  result has the sign of the dividend.
\<close>

definition trunc :: "real \<Rightarrow> int" where
  "trunc x = (if 0 \<le> x then \<lfloor>x\<rfloor> else \<lceil>x\<rceil>)"

definition fmod :: "real \<Rightarrow> real \<Rightarrow> real" where
  "fmod a b = a - b * of_int (trunc (a / b))"

fun jrem :: "jsnum \<Rightarrow> jsnum \<Rightarrow> jsnum" where
  "jrem (Fin a) (Fin b) = (if b = 0 then NaN else Fin (fmod a b))"
| "jrem (Fin a) PInf = Fin a"
| "jrem (Fin a) NInf = Fin a"
| "jrem PInf y = NaN"
| "jrem NInf y = NaN"
| "jrem NaN y = NaN"
| "jrem x NaN = NaN"

fun jabs :: "jsnum \<Rightarrow> jsnum" where
  "jabs (Fin a) = Fin \<bar>a\<bar>"
| "jabs PInf = PInf"
| "jabs NInf = PInf"
| "jabs NaN = NaN"

text \<open>Comparisons with \<open>NaN\<close> are false.\<close>

fun jlt :: "jsnum \<Rightarrow> jsnum \<Rightarrow> bool" where
  "jlt (Fin a) (Fin b) = (a < b)"
| "jlt (Fin a) PInf = True"
| "jlt (Fin a) NInf = False"
| "jlt PInf y = False"
| "jlt NInf (Fin b) = True"
| "jlt NInf PInf = True"
| "jlt NInf NInf = False"
| "jlt NaN y = False"
| "jlt x NaN = False"

definition jgt :: "jsnum \<Rightarrow> jsnum \<Rightarrow> bool" where
  "jgt x y = jlt y x"

text \<open>\<open>Math.max\<close> and \<open>Math.min\<close> return \<open>NaN\<close> as soon as one argument is \<open>NaN\<close>.\<close>

fun jmax :: "jsnum \<Rightarrow> jsnum \<Rightarrow> jsnum" where
  "jmax (Fin a) (Fin b) = Fin (max a b)"
| "jmax (Fin a) PInf = PInf"
| "jmax (Fin a) NInf = Fin a"
| "jmax PInf (Fin b) = PInf"
| "jmax PInf PInf = PInf"
| "jmax PInf NInf = PInf"
| "jmax NInf (Fin b) = Fin b"
| "jmax NInf PInf = PInf"
| "jmax NInf NInf = NInf"
| "jmax NaN y = NaN"
| "jmax x NaN = NaN"

fun jmin :: "jsnum \<Rightarrow> jsnum \<Rightarrow> jsnum" where
  "jmin (Fin a) (Fin b) = Fin (min a b)"
| "jmin (Fin a) PInf = Fin a"
| "jmin (Fin a) NInf = NInf"
| "jmin PInf (Fin b) = Fin b"
| "jmin PInf PInf = PInf"
| "jmin PInf NInf = NInf"
| "jmin NInf (Fin b) = NInf"
| "jmin NInf PInf = NInf"
| "jmin NInf NInf = NInf"
| "jmin NaN y = NaN"
| "jmin x NaN = NaN"


section \<open>Configuration and settings\<close>

text \<open>
  The props of \<open>ThreeSliderDraggable\<close>; \<open>ThreeSlider\<close> declares the same names as local
  constants. \<open>totalWidth\<close> and \<open>slideUnit\<close> are the derived constants of both components.
\<close>

record config =
  slideWidth :: real
  slideHeight :: real
  gap :: real
  slideCount :: nat

definition totalWidth :: "config \<Rightarrow> real" where
  "totalWidth cfg = real (slideCount cfg) * (slideWidth cfg + gap cfg)"

definition slideUnit :: "config \<Rightarrow> real" where
  "slideUnit cfg = slideWidth cfg + gap cfg"

text \<open>The default props, which are also the constants of \<open>ThreeSlider\<close>.\<close>

definition default_config :: config where
  "default_config = \<lparr>slideWidth = 3.0, slideHeight = 1.5, gap = 0.1, slideCount = 10\<rparr>"

text \<open>The entries of the \<open>settings\<close> object that the frame update and the handlers read.\<close>

definition smoothing :: real where "smoothing = 0.1"
definition slideLerp :: real where "slideLerp = 0.075"
definition distortionDecay :: real where "distortionDecay = 0.95"
definition maxDistortion :: real where "maxDistortion = 2.5"
definition distortionSensitivity :: real where "distortionSensitivity = 0.15"
definition distortionSmoothing :: real where "distortionSmoothing = 0.075"
definition dragSensitivity :: real where "dragSensitivity = 0.02"
definition momentumMultiplier :: real where "momentumMultiplier = 2"
definition wheelSensitivity :: real where "wheelSensitivity = 0.01"
definition touchSensitivity :: real where "touchSensitivity = 0.01"


section \<open>Wrap layout\<close>

text \<open>
  The first three statements of the \<open>slides.forEach\<close> body of \<open>animate\<close>, the same text in
  both components:
  \<^verbatim>\<open>
  let baseX = i * slideUnit - currentPosition.current;
  baseX = ((baseX % totalWidth) + totalWidth) % totalWidth;
  if (baseX > totalWidth / 2) baseX -= totalWidth;
  \<close>
\<close>

definition wrapBaseX :: "config \<Rightarrow> nat \<Rightarrow> real \<Rightarrow> jsnum" where
  "wrapBaseX cfg i currentPosition =
     (let tw = Fin (totalWidth cfg);
          baseX0 = Fin (real i * slideUnit cfg - currentPosition);
          baseX1 = jrem (jadd (jrem baseX0 tw) tw) tw
      in if jgt baseX1 (jdiv tw (Fin 2)) then jsub baseX1 tw else baseX1)"



section \<open>Slides and the displacement field\<close>

text \<open>
  A slide is the \<open>THREE.Mesh\<close> that \<open>createSlide\<close> builds, reduced to what the frame update
  reads and writes: \<open>mesh.position.x\<close>, \<open>mesh.scale.x\<close> and \<open>mesh.scale.y\<close>, the live vertex
  buffer \<open>geometry.attributes.position.array\<close> (three numbers per vertex: x, y, z) and the
  \<open>userData\<close> entries \<open>originalVertices\<close>, \<open>targetX\<close> and \<open>currentX\<close>. \<open>originalVertices\<close> is a
  copy of the buffer taken at creation (the spread \<open>[...array]\<close> allocates a new array), so it
  does not alias the live buffer. It is optional because \<open>updateCurve\<close> tests for it.
  \<open>mesh.position.x\<close> is only ever assigned a number whose magnitude was just compared below a
  finite threshold, so it is a real.
\<close>

record slide =
  position_x :: real
  scale_x :: real
  scale_y :: real
  positionArray :: "jsnum list"
  originalVertices :: "real list option"
  targetX :: jsnum
  currentX :: jsnum

text \<open>\<open>positionAttribute.count\<close>: the buffer length over the item size 3.\<close>

definition vertexCount :: "jsnum list \<Rightarrow> nat" where
  "vertexCount arr = length arr div 3"

text \<open>\<open>positionAttribute.setZ(i, z)\<close> stores at index \<open>i * 3 + 2\<close> of a typed array, which
  ignores a store outside the buffer.\<close>

definition setZ :: "jsnum list \<Rightarrow> nat \<Rightarrow> jsnum \<Rightarrow> jsnum list" where
  "setZ arr i z = (if i * 3 + 2 < length arr then arr[i * 3 + 2 := z] else arr)"

definition distortionRadius :: real where "distortionRadius = 2.0"

text \<open>\<open>Math.pow(b, 1.5)\<close>: \<open>NaN\<close> for a negative base.\<close>

definition pow15 :: "real \<Rightarrow> jsnum" where
  "pow15 b = (if b < 0 then NaN else Fin (b powr 1.5))"

text \<open>
  From the distance to the distortion centre \<open>(0, 0)\<close> to the new z:
  \<^verbatim>\<open>
  const distortionStrength = Math.max(0, 1 - distFromCenter / distortionRadius);
  const curveZ = Math.pow(Math.sin((distortionStrength * Math.PI) / 2), 1.5) * maxCurvature;
  \<close>
\<close>

definition curveZ :: "real \<Rightarrow> jsnum \<Rightarrow> jsnum" where
  "curveZ distFromCenter maxCurvature =
     (let distortionStrength = max 0 (1 - distFromCenter / distortionRadius)
      in jmul (pow15 (sin ((distortionStrength * pi) / 2))) maxCurvature)"

text \<open>
  The loop body of \<open>updateCurve\<close> for vertex \<open>i\<close>. A read past the end of
  \<open>originalVertices\<close> yields \<open>undefined\<close>, which turns every later operation into \<open>NaN\<close>.
  \<open>ThreeSliderDraggable\<close> scales the local coordinates by \<open>mesh.scale\<close>; \<open>ThreeSlider\<close> does not.
\<close>

definition drag_vertexZ :: "real list \<Rightarrow> real \<Rightarrow> real \<Rightarrow> real \<Rightarrow> jsnum \<Rightarrow> nat \<Rightarrow> jsnum" where
  "drag_vertexZ ov worldPositionX sx sy maxCurvature i =
     (if i * 3 + 1 < length ov then
        (let x = ov ! (i * 3);
             y = ov ! (i * 3 + 1);
             vertexWorldPosX = worldPositionX + x * sx;
             vertexWorldPosY = y * sy;
             distFromCenter = sqrt ((vertexWorldPosX - 0)\<^sup>2 + (vertexWorldPosY - 0)\<^sup>2)
         in curveZ distFromCenter maxCurvature)
      else NaN)"

definition slider_vertexZ :: "real list \<Rightarrow> real \<Rightarrow> jsnum \<Rightarrow> nat \<Rightarrow> jsnum" where
  "slider_vertexZ ov worldPositionX maxCurvature i =
     (if i * 3 + 1 < length ov then
        (let x = ov ! (i * 3);
             y = ov ! (i * 3 + 1);
             vertexWorldPosX = worldPositionX + x;
             distFromCenter = sqrt ((vertexWorldPosX - 0)\<^sup>2 + (y - 0)\<^sup>2)
         in curveZ distFromCenter maxCurvature)
      else NaN)"

text \<open>
  \<open>updateCurve(mesh, worldPositionX, distortionFactor)\<close>: returns at once when the mesh has no
  \<open>originalVertices\<close>; otherwise runs \<open>for (let i = 0; i < positionAttribute.count; i++)\<close> and
  stores the new z of each vertex. The recomputation of the normals that follows writes the
  normal attribute only, which is not part of the model.
\<close>

definition drag_updateCurve :: "slide \<Rightarrow> real \<Rightarrow> jsnum \<Rightarrow> slide" where
  "drag_updateCurve mesh worldPositionX distortionFactor =
     (case originalVertices mesh of
        None \<Rightarrow> mesh
      | Some ov \<Rightarrow>
          (let maxCurvature = jmul (Fin maxDistortion) distortionFactor
           in mesh\<lparr>positionArray :=
                fold (\<lambda>i arr. setZ arr i
                        (drag_vertexZ ov worldPositionX (scale_x mesh) (scale_y mesh) maxCurvature i))
                  [0..<vertexCount (positionArray mesh)] (positionArray mesh)\<rparr>))"

definition slider_updateCurve :: "slide \<Rightarrow> real \<Rightarrow> jsnum \<Rightarrow> slide" where
  "slider_updateCurve mesh worldPositionX distortionFactor =
     (case originalVertices mesh of
        None \<Rightarrow> mesh
      | Some ov \<Rightarrow>
          (let maxCurvature = jmul (Fin maxDistortion) distortionFactor
           in mesh\<lparr>positionArray :=
                fold (\<lambda>i arr. setZ arr i (slider_vertexZ ov worldPositionX maxCurvature i))
                  [0..<vertexCount (positionArray mesh)] (positionArray mesh)\<rparr>))"

text \<open>
  The rest of the \<open>slides.forEach\<close> body, after \<open>baseX\<close> is wrapped; the same text in both
  components, up to the \<open>updateCurve\<close> each one calls:
  \<^verbatim>\<open>
  const isWrapping = Math.abs(baseX - slide.userData.targetX) > slideWidth * 2;
  if (isWrapping) slide.userData.currentX = baseX;
  slide.userData.targetX = baseX;
  slide.userData.currentX += (slide.userData.targetX - slide.userData.currentX) * settings.slideLerp;
  const wrapThreshold = totalWidth / 2 + slideWidth;
  if (Math.abs(slide.userData.currentX) < wrapThreshold * 1.5) {
    slide.position.x = slide.userData.currentX;
    updateCurve(slide, slide.position.x, currentDistortionFactor.current);
  }
  \<close>
\<close>

definition isWrapping :: "config \<Rightarrow> jsnum \<Rightarrow> slide \<Rightarrow> bool" where
  "isWrapping cfg baseX sl = jgt (jabs (jsub baseX (targetX sl))) (Fin (slideWidth cfg * 2))"

definition placeSlide ::
  "(slide \<Rightarrow> real \<Rightarrow> jsnum \<Rightarrow> slide) \<Rightarrow> config \<Rightarrow> jsnum \<Rightarrow> jsnum \<Rightarrow> slide \<Rightarrow> slide" where
  "placeSlide upd cfg distortionFactor baseX sl =
     (let cx0 = (if isWrapping cfg baseX sl then baseX else currentX sl);
          cx = jadd cx0 (jmul (jsub baseX cx0) (Fin slideLerp));
          sl1 = sl\<lparr>targetX := baseX, currentX := cx\<rparr>;
          wrapThreshold = totalWidth cfg / 2 + slideWidth cfg
      in if jlt (jabs cx) (Fin (wrapThreshold * 1.5)) then
           (case cx of
              Fin x \<Rightarrow> upd (sl1\<lparr>position_x := x\<rparr>) x distortionFactor
            | _ \<Rightarrow> sl1)
         else sl1)"

text \<open>The whole \<open>forEach\<close> body for the slide at index \<open>i\<close>, and the loop over the slides.\<close>

definition layoutSlide ::
  "(slide \<Rightarrow> real \<Rightarrow> jsnum \<Rightarrow> slide) \<Rightarrow> config \<Rightarrow> real \<Rightarrow> jsnum \<Rightarrow> nat \<Rightarrow> slide \<Rightarrow> slide" where
  "layoutSlide upd cfg currentPosition distortionFactor i sl =
     placeSlide upd cfg distortionFactor (wrapBaseX cfg i currentPosition) sl"

definition layoutSlides ::
  "(slide \<Rightarrow> real \<Rightarrow> jsnum \<Rightarrow> slide) \<Rightarrow> config \<Rightarrow> real \<Rightarrow> jsnum \<Rightarrow> slide list \<Rightarrow> slide list" where
  "layoutSlides upd cfg currentPosition distortionFactor sls =
     map (\<lambda>(i, sl). layoutSlide upd cfg currentPosition distortionFactor i sl) (enumerate 0 sls)"


section \<open>Engine state\<close>

text \<open>
  The refs that both components declare. \<open>ThreeSliderDraggable\<close> adds the drag refs,
  \<open>ThreeSlider\<close> the scroll and touch refs.
\<close>

record engine =
  slides :: "slide list"
  currentPosition :: real
  targetPosition :: real
  autoScrollSpeed :: real
  lastTime :: real
  prevPosition :: real
  currentDistortionFactor :: jsnum
  targetDistortionFactor :: jsnum
  peakVelocity :: jsnum
  velocityHistory :: "jsnum list"

record drag_engine = engine +
  isDragging :: bool
  dragStartX :: real
  dragLastX :: real

record slider_engine = engine +
  isScrolling :: bool
  touchStartX :: real
  touchLastX :: real


section \<open>The steps of the frame update\<close>

text \<open>\<open>const deltaTime = lastTime.current ? (time - lastTime.current) / 1000 : 0.016\<close>\<close>

definition deltaTime :: "real \<Rightarrow> real \<Rightarrow> real" where
  "deltaTime lastT time = (if lastT \<noteq> 0 then (time - lastT) / 1000 else 0.016)"

text \<open>
  The decay of the momentum, the same two statements in both components:
  \<^verbatim>\<open>
  const speedBasedDecay = 0.97 - Math.abs(autoScrollSpeed.current) * 0.5;
  autoScrollSpeed.current *= Math.max(0.92, speedBasedDecay);
  if (Math.abs(autoScrollSpeed.current) < 0.001) autoScrollSpeed.current = 0;
  \<close>
\<close>

definition decaySpeed :: "real \<Rightarrow> real" where
  "decaySpeed speed =
     (let speedBasedDecay = 0.97 - \<bar>speed\<bar> * 0.5;
          speed1 = speed * max 0.92 speedBasedDecay
      in if \<bar>speed1\<bar> < 0.001 then 0 else speed1)"

text \<open>
  The momentum step returns the new \<open>targetPosition\<close> and \<open>autoScrollSpeed\<close>.
  \<open>ThreeSliderDraggable\<close>:
  \<^verbatim>\<open>
  if (!isDragging.current && Math.abs(autoScrollSpeed.current) > 0.001) { ... }
  else if (!isDragging.current) { autoScrollSpeed.current = 0; }
  \<close>
  \<open>ThreeSlider\<close>: \<^verbatim>\<open>if (isScrolling.current) { ... }\<close> with no other branch.
\<close>

definition drag_momentum :: "bool \<Rightarrow> real \<Rightarrow> real \<Rightarrow> real \<times> real" where
  "drag_momentum dragging target speed =
     (if \<not> dragging \<and> \<bar>speed\<bar> > 0.001 then (target + speed, decaySpeed speed)
      else if \<not> dragging then (target, 0)
      else (target, speed))"

definition slider_momentum :: "bool \<Rightarrow> real \<Rightarrow> real \<Rightarrow> real \<times> real" where
  "slider_momentum scrolling target speed =
     (if scrolling then (target + speed, decaySpeed speed) else (target, speed))"

text \<open>\<open>currentPosition.current += (targetPosition.current - currentPosition.current) * settings.smoothing\<close>\<close>

definition smoothPosition :: "real \<Rightarrow> real \<Rightarrow> real" where
  "smoothPosition current target = current + (target - current) * smoothing"

text \<open>
  The velocity of the frame. \<open>ThreeSliderDraggable\<close> wraps the quotient in \<open>Math.max(0, _)\<close>,
  \<open>ThreeSlider\<close> does not. Neither tests \<open>deltaTime\<close> before dividing.
\<close>

definition drag_currentVelocity :: "real \<Rightarrow> real \<Rightarrow> real \<Rightarrow> jsnum" where
  "drag_currentVelocity current prev dt = jmax (Fin 0) (jdiv (Fin \<bar>current - prev\<bar>) (Fin dt))"

definition slider_currentVelocity :: "real \<Rightarrow> real \<Rightarrow> real \<Rightarrow> jsnum" where
  "slider_currentVelocity current prev dt = jdiv (Fin \<bar>current - prev\<bar>) (Fin dt)"

text \<open>\<open>velocityHistory.push(currentVelocity); velocityHistory.shift();\<close>\<close>

definition pushVelocity :: "jsnum list \<Rightarrow> jsnum \<Rightarrow> jsnum list" where
  "pushVelocity history v = tl (history @ [v])"

text \<open>\<open>velocityHistory.reduce((sum, val) => sum + val, 0) / velocityHistory.length\<close>\<close>

definition averageVelocity :: "jsnum list \<Rightarrow> jsnum" where
  "averageVelocity history = jdiv (foldl jadd (Fin 0) history) (Fin (real (length history)))"

text \<open>\<open>if (avgVelocity > peakVelocity.current) peakVelocity.current = avgVelocity;\<close>\<close>

definition raisePeak :: "jsnum \<Rightarrow> jsnum \<Rightarrow> jsnum" where
  "raisePeak avgVelocity peak = (if jgt avgVelocity peak then avgVelocity else peak)"

text \<open>
  \<^verbatim>\<open>
  const velocityRatio = peakVelocity.current > 0.001 ? avgVelocity / peakVelocity.current : 0;
  const isDecelerating = velocityRatio < 0.7 && peakVelocity.current > 0.5;
  \<close>
\<close>

definition velocityRatio :: "jsnum \<Rightarrow> jsnum \<Rightarrow> jsnum" where
  "velocityRatio avgVelocity peak = (if jgt peak (Fin 0.001) then jdiv avgVelocity peak else Fin 0)"

definition isDecelerating :: "jsnum \<Rightarrow> jsnum \<Rightarrow> bool" where
  "isDecelerating avgVelocity peak =
     (jlt (velocityRatio avgVelocity peak) (Fin 0.7) \<and> jgt peak (Fin 0.5))"

text \<open>\<open>Math.min(1.0, currentVelocity * settings.distortionSensitivity)\<close>\<close>

definition movementDistortion :: "jsnum \<Rightarrow> jsnum" where
  "movementDistortion velocity = jmin (Fin 1.0) (jmul velocity (Fin distortionSensitivity))"

text \<open>
  The rise of the target distortion. \<open>ThreeSliderDraggable\<close> tests
  \<open>currentVelocity > 0.05 || isDragging.current\<close>, \<open>ThreeSlider\<close> tests \<open>currentVelocity > 0.05\<close>.
\<close>

definition drag_raiseDistortion :: "bool \<Rightarrow> jsnum \<Rightarrow> jsnum \<Rightarrow> jsnum" where
  "drag_raiseDistortion dragging velocity target =
     (if jgt velocity (Fin 0.05) \<or> dragging then jmax target (movementDistortion velocity)
      else target)"

definition slider_raiseDistortion :: "jsnum \<Rightarrow> jsnum \<Rightarrow> jsnum" where
  "slider_raiseDistortion velocity target =
     (if jgt velocity (Fin 0.05) then jmax target (movementDistortion velocity) else target)"

text \<open>
  The decay rate. \<open>ThreeSliderDraggable\<close>:
  \<^verbatim>\<open>
  isDecelerating || avgVelocity < 0.2 || !isDragging.current
    ? settings.distortionDecay : settings.distortionDecay * 0.98
  \<close>
  \<open>ThreeSlider\<close>:
  \<^verbatim>\<open>
  isDecelerating || avgVelocity < 0.2
    ? settings.distortionDecay // Use faster decay setting
    : settings.distortionDecay * 0.9; // Slower decay otherwise
  \<close>
\<close>

definition drag_decayRate :: "bool \<Rightarrow> jsnum \<Rightarrow> bool \<Rightarrow> real" where
  "drag_decayRate decelerating avgVelocity dragging =
     (if decelerating \<or> jlt avgVelocity (Fin 0.2) \<or> \<not> dragging then distortionDecay
      else distortionDecay * 0.98)"

definition slider_decayRate :: "bool \<Rightarrow> jsnum \<Rightarrow> real" where
  "slider_decayRate decelerating avgVelocity =
     (if decelerating \<or> jlt avgVelocity (Fin 0.2) then distortionDecay
      else distortionDecay * 0.9)"

text \<open>
  \<^verbatim>\<open>
  currentDistortionFactor.current +=
    (targetDistortionFactor.current - currentDistortionFactor.current) * settings.distortionSmoothing;
  \<close>
\<close>

definition smoothDistortion :: "jsnum \<Rightarrow> jsnum \<Rightarrow> jsnum" where
  "smoothDistortion current target =
     jadd current (jmul (jsub target current) (Fin distortionSmoothing))"


section \<open>The frame update\<close>

text \<open>
  \<open>animate(time)\<close> of \<open>ThreeSliderDraggable\<close>, statement by statement. Scheduling the next frame
  and handing the scene to the renderer are outside the model.
\<close>

definition drag_animate :: "config \<Rightarrow> real \<Rightarrow> drag_engine \<Rightarrow> drag_engine" where
  "drag_animate cfg time s =
     (let dt = deltaTime (lastTime s) time;
          prev = currentPosition s;
          (target, speed) = drag_momentum (isDragging s) (targetPosition s) (autoScrollSpeed s);
          current = smoothPosition (currentPosition s) target;
          velocity = drag_currentVelocity current prev dt;
          history = pushVelocity (velocityHistory s) velocity;
          avgVelocity = averageVelocity history;
          peak = raisePeak avgVelocity (peakVelocity s);
          decelerating = isDecelerating avgVelocity peak;
          raised = drag_raiseDistortion (isDragging s) velocity (targetDistortionFactor s);
          targetDistortion =
            jmul raised (Fin (drag_decayRate decelerating avgVelocity (isDragging s)));
          currentDistortion = smoothDistortion (currentDistortionFactor s) targetDistortion
      in s\<lparr>lastTime := time,
            prevPosition := prev,
            targetPosition := target,
            autoScrollSpeed := speed,
            currentPosition := current,
            velocityHistory := history,
            peakVelocity := jmul peak (Fin 0.99),
            targetDistortionFactor := targetDistortion,
            currentDistortionFactor := currentDistortion,
            slides := layoutSlides drag_updateCurve cfg current currentDistortion (slides s)\<rparr>)"

text \<open>\<open>animate(time)\<close> of \<open>ThreeSlider\<close>, whose layout constants are the default configuration.\<close>

definition slider_animate :: "real \<Rightarrow> slider_engine \<Rightarrow> slider_engine" where
  "slider_animate time s =
     (let dt = deltaTime (lastTime s) time;
          prev = currentPosition s;
          (target, speed) = slider_momentum (isScrolling s) (targetPosition s) (autoScrollSpeed s);
          current = smoothPosition (currentPosition s) target;
          velocity = slider_currentVelocity current prev dt;
          history = pushVelocity (velocityHistory s) velocity;
          avgVelocity = averageVelocity history;
          peak = raisePeak avgVelocity (peakVelocity s);
          decelerating = isDecelerating avgVelocity peak;
          raised = slider_raiseDistortion velocity (targetDistortionFactor s);
          targetDistortion = jmul raised (Fin (slider_decayRate decelerating avgVelocity));
          currentDistortion = smoothDistortion (currentDistortionFactor s) targetDistortion
      in s\<lparr>lastTime := time,
            prevPosition := prev,
            targetPosition := target,
            autoScrollSpeed := speed,
            currentPosition := current,
            velocityHistory := history,
            peakVelocity := jmul peak (Fin 0.99),
            targetDistortionFactor := targetDistortion,
            currentDistortionFactor := currentDistortion,
            slides := layoutSlides slider_updateCurve default_config current currentDistortion
                        (slides s)\<rparr>)"


section \<open>Input handlers\<close>

datatype key = ArrowLeft | ArrowRight | OtherKey

text \<open>
  \<open>Math.min(1.0, targetDistortionFactor.current + strength)\<close>, the impulse that every handler
  applies.
\<close>

definition addDistortion :: "jsnum \<Rightarrow> real \<Rightarrow> jsnum" where
  "addDistortion target strength = jmin (Fin 1.0) (jadd target (Fin strength))"

text \<open>\<open>handleKeyDown\<close>, the same in both components.\<close>

definition handleKeyDown :: "real \<Rightarrow> key \<Rightarrow> 'a engine_scheme \<Rightarrow> 'a engine_scheme" where
  "handleKeyDown unit k s =
     (case k of
        ArrowLeft \<Rightarrow>
          s\<lparr>targetPosition := targetPosition s + unit,
            targetDistortionFactor := addDistortion (targetDistortionFactor s) 0.3\<rparr>
      | ArrowRight \<Rightarrow>
          s\<lparr>targetPosition := targetPosition s - unit,
            targetDistortionFactor := addDistortion (targetDistortionFactor s) 0.3\<rparr>
      | OtherKey \<Rightarrow> s)"

subsection \<open>ThreeSliderDraggable\<close>

text \<open>
  \<open>handleMouseDown\<close>: \<open>intersects\<close> is the answer of the raycaster, which the model takes as
  part of the event.
\<close>

definition handleMouseDown :: "bool \<Rightarrow> real \<Rightarrow> drag_engine \<Rightarrow> drag_engine" where
  "handleMouseDown intersects clientX s =
     (if intersects then
        s\<lparr>isDragging := True, dragStartX := clientX, dragLastX := clientX,
          autoScrollSpeed := 0, peakVelocity := Fin 0\<rparr>
      else s)"

definition handleMouseMove :: "real \<Rightarrow> drag_engine \<Rightarrow> drag_engine" where
  "handleMouseMove clientX s =
     (if isDragging s then
        (let deltaX = clientX - dragLastX s;
             dragStrength = min (\<bar>deltaX\<bar> * 0.02) 1.0
         in s\<lparr>dragLastX := clientX,
               targetDistortionFactor := addDistortion (targetDistortionFactor s) dragStrength,
               targetPosition := targetPosition s - deltaX * dragSensitivity\<rparr>)
      else s)"

definition handleMouseUpOrLeave :: "drag_engine \<Rightarrow> drag_engine" where
  "handleMouseUpOrLeave s =
     (if isDragging s then
        (let velocity = (dragLastX s - dragStartX s) * 0.005
         in if \<bar>velocity\<bar> > 0.5 then
              s\<lparr>isDragging := False,
                autoScrollSpeed := - velocity * momentumMultiplier * 0.05,
                targetDistortionFactor :=
                  addDistortion (targetDistortionFactor s)
                    (\<bar>velocity\<bar> * distortionSensitivity * 1.5)\<rparr>
            else s\<lparr>isDragging := False\<rparr>)
      else s)"

subsection \<open>ThreeSlider\<close>

definition handleWheel :: "real \<Rightarrow> slider_engine \<Rightarrow> slider_engine" where
  "handleWheel deltaY s =
     (let wheelStrength = min (\<bar>deltaY\<bar> * 0.001) 1.0
      in s\<lparr>targetDistortionFactor := addDistortion (targetDistortionFactor s) wheelStrength,
            targetPosition := targetPosition s - deltaY * wheelSensitivity,
            isScrolling := True,
            autoScrollSpeed := min (\<bar>deltaY\<bar> * 0.0005) 0.05 * sgn deltaY\<rparr>)"

definition handleTouchStart :: "real \<Rightarrow> slider_engine \<Rightarrow> slider_engine" where
  "handleTouchStart clientX s =
     s\<lparr>touchStartX := clientX, touchLastX := clientX, isScrolling := False,
       autoScrollSpeed := 0, peakVelocity := Fin 0\<rparr>"

definition handleTouchMove :: "real \<Rightarrow> slider_engine \<Rightarrow> slider_engine" where
  "handleTouchMove touchX s =
     (let deltaX = touchX - touchLastX s;
          touchStrength = min (\<bar>deltaX\<bar> * 0.02) 1.0
      in s\<lparr>touchLastX := touchX,
            targetDistortionFactor := addDistortion (targetDistortionFactor s) touchStrength,
            targetPosition := targetPosition s - deltaX * touchSensitivity,
            isScrolling := True\<rparr>)"

text \<open>\<open>handleTouchEnd\<close> overwrites the target distortion instead of adding to it.\<close>

definition handleTouchEnd :: "slider_engine \<Rightarrow> slider_engine" where
  "handleTouchEnd s =
     (let velocity = (touchLastX s - touchStartX s) * 0.005
      in if \<bar>velocity\<bar> > 0.5 then
           s\<lparr>autoScrollSpeed := - velocity * momentumMultiplier * 0.05,
             targetDistortionFactor := jmin (Fin 1.0) (Fin (\<bar>velocity\<bar> * 3 * distortionSensitivity)),
             isScrolling := True\<rparr>
         else s\<lparr>isScrolling := True\<rparr>)"

text \<open>The callback of both timers (150 ms after a wheel event, 800 ms after a touch end).\<close>

definition scrollTimeout :: "slider_engine \<Rightarrow> slider_engine" where
  "scrollTimeout s = s\<lparr>isScrolling := False\<rparr>"


section \<open>Event sequences\<close>

text \<open>
  The browser runs one handler or one frame callback at a time. A run is the list of the
  callbacks in the order they ran. A timer callback is an event of its own.
\<close>

datatype drag_event =
    MouseDown bool real
  | MouseMove real
  | MouseUpOrLeave
  | DragKeyDown key
  | DragFrame real

datatype slider_event =
    Wheel real
  | KeyDown key
  | TouchStart real
  | TouchMove real
  | TouchEnd
  | ScrollTimeout
  | Frame real

fun drag_step :: "config \<Rightarrow> drag_engine \<Rightarrow> drag_event \<Rightarrow> drag_engine" where
  "drag_step cfg s (MouseDown intersects x) = handleMouseDown intersects x s"
| "drag_step cfg s (MouseMove x) = handleMouseMove x s"
| "drag_step cfg s MouseUpOrLeave = handleMouseUpOrLeave s"
| "drag_step cfg s (DragKeyDown k) = handleKeyDown (slideWidth cfg + gap cfg) k s"
| "drag_step cfg s (DragFrame time) = drag_animate cfg time s"

fun slider_step :: "slider_engine \<Rightarrow> slider_event \<Rightarrow> slider_engine" where
  "slider_step s (Wheel deltaY) = handleWheel deltaY s"
| "slider_step s (KeyDown k) = handleKeyDown (slideUnit default_config) k s"
| "slider_step s (TouchStart x) = handleTouchStart x s"
| "slider_step s (TouchMove x) = handleTouchMove x s"
| "slider_step s TouchEnd = handleTouchEnd s"
| "slider_step s ScrollTimeout = scrollTimeout s"
| "slider_step s (Frame time) = slider_animate time s"

definition drag_run :: "config \<Rightarrow> drag_engine \<Rightarrow> drag_event list \<Rightarrow> drag_engine" where
  "drag_run cfg s es = foldl (drag_step cfg) s es"

definition slider_run :: "slider_engine \<Rightarrow> slider_event list \<Rightarrow> slider_engine" where
  "slider_run s es = foldl slider_step s es"

text \<open>Every frame of the run measures a positive \<open>deltaTime\<close>.\<close>

fun drag_positive_frames :: "config \<Rightarrow> drag_engine \<Rightarrow> drag_event list \<Rightarrow> bool" where
  "drag_positive_frames cfg s [] = True"
| "drag_positive_frames cfg s (e # es) =
     ((case e of DragFrame time \<Rightarrow> 0 < deltaTime (lastTime s) time | _ \<Rightarrow> True)
      \<and> drag_positive_frames cfg (drag_step cfg s e) es)"

fun slider_positive_frames :: "slider_engine \<Rightarrow> slider_event list \<Rightarrow> bool" where
  "slider_positive_frames s [] = True"
| "slider_positive_frames s (e # es) =
     ((case e of Frame time \<Rightarrow> 0 < deltaTime (lastTime s) time | _ \<Rightarrow> True)
      \<and> slider_positive_frames (slider_step s e) es)"

text \<open>The values that \<open>targetDistortionFactor\<close> has after each callback of the run, the
  starting value first.\<close>

fun drag_targets :: "config \<Rightarrow> drag_engine \<Rightarrow> drag_event list \<Rightarrow> jsnum list" where
  "drag_targets cfg s [] = [targetDistortionFactor s]"
| "drag_targets cfg s (e # es) = targetDistortionFactor s # drag_targets cfg (drag_step cfg s e) es"

fun slider_targets :: "slider_engine \<Rightarrow> slider_event list \<Rightarrow> jsnum list" where
  "slider_targets s [] = [targetDistortionFactor s]"
| "slider_targets s (e # es) = targetDistortionFactor s # slider_targets (slider_step s e) es"


section \<open>The quantities of one frame\<close>

text \<open>
  The local constants \<open>currentVelocity\<close>, \<open>avgVelocity\<close>, the raised \<open>peakVelocity\<close>,
  \<open>velocityRatio\<close> and \<open>decayRate\<close> of a frame, as functions of the timestamp and of the engine
  before the frame. They repeat the bindings of \<open>drag_animate\<close> and \<open>slider_animate\<close>, so that
  a statement can name them.
\<close>

definition drag_frameVelocity :: "real \<Rightarrow> drag_engine \<Rightarrow> jsnum" where
  "drag_frameVelocity time s =
     (let (target, speed) = drag_momentum (isDragging s) (targetPosition s) (autoScrollSpeed s);
          current = smoothPosition (currentPosition s) target
      in drag_currentVelocity current (currentPosition s) (deltaTime (lastTime s) time))"

definition drag_frameAverage :: "real \<Rightarrow> drag_engine \<Rightarrow> jsnum" where
  "drag_frameAverage time s =
     averageVelocity (pushVelocity (velocityHistory s) (drag_frameVelocity time s))"

definition drag_framePeak :: "real \<Rightarrow> drag_engine \<Rightarrow> jsnum" where
  "drag_framePeak time s = raisePeak (drag_frameAverage time s) (peakVelocity s)"

definition drag_frameRatio :: "real \<Rightarrow> drag_engine \<Rightarrow> jsnum" where
  "drag_frameRatio time s = velocityRatio (drag_frameAverage time s) (drag_framePeak time s)"

definition drag_frameDecay :: "real \<Rightarrow> drag_engine \<Rightarrow> real" where
  "drag_frameDecay time s =
     drag_decayRate (isDecelerating (drag_frameAverage time s) (drag_framePeak time s))
       (drag_frameAverage time s) (isDragging s)"

definition slider_frameVelocity :: "real \<Rightarrow> slider_engine \<Rightarrow> jsnum" where
  "slider_frameVelocity time s =
     (let (target, speed) = slider_momentum (isScrolling s) (targetPosition s) (autoScrollSpeed s);
          current = smoothPosition (currentPosition s) target
      in slider_currentVelocity current (currentPosition s) (deltaTime (lastTime s) time))"

definition slider_frameAverage :: "real \<Rightarrow> slider_engine \<Rightarrow> jsnum" where
  "slider_frameAverage time s =
     averageVelocity (pushVelocity (velocityHistory s) (slider_frameVelocity time s))"

definition slider_framePeak :: "real \<Rightarrow> slider_engine \<Rightarrow> jsnum" where
  "slider_framePeak time s = raisePeak (slider_frameAverage time s) (peakVelocity s)"

definition slider_frameRatio :: "real \<Rightarrow> slider_engine \<Rightarrow> jsnum" where
  "slider_frameRatio time s = velocityRatio (slider_frameAverage time s) (slider_framePeak time s)"

definition slider_frameDecay :: "real \<Rightarrow> slider_engine \<Rightarrow> real" where
  "slider_frameDecay time s =
     slider_decayRate (isDecelerating (slider_frameAverage time s) (slider_framePeak time s))
       (slider_frameAverage time s)"


section \<open>Mounting\<close>

text \<open>
  \<open>createSlide(index)\<close> followed by the centring loop of the effect. \<open>vertices\<close> is the
  position buffer that \<open>THREE.PlaneGeometry\<close> fills, a parameter of the model. The texture
  callback, which rescales a mesh later, is not modelled: the scale of a slide is whatever its
  record holds.
\<close>

definition createSlide :: "config \<Rightarrow> real list \<Rightarrow> nat \<Rightarrow> slide" where
  "createSlide cfg vertices index =
     \<lparr>position_x = real index * slideUnit cfg,
      scale_x = 1, scale_y = 1,
      positionArray = map Fin vertices,
      originalVertices = Some vertices,
      targetX = Fin (real index * slideUnit cfg),
      currentX = Fin (real index * slideUnit cfg)\<rparr>"

definition centerSlide :: "config \<Rightarrow> slide \<Rightarrow> slide" where
  "centerSlide cfg sl =
     (let x = position_x sl - totalWidth cfg / 2
      in sl\<lparr>position_x := x, targetX := Fin x, currentX := Fin x\<rparr>)"

definition mountSlides :: "config \<Rightarrow> real list \<Rightarrow> slide list" where
  "mountSlides cfg vertices =
     map (\<lambda>i. centerSlide cfg (createSlide cfg vertices i)) [0..<slideCount cfg]"

text \<open>
  The engine when the effect has run up to \<open>lastTime.current = performance.now()\<close>; \<open>now\<close> is
  that timestamp. The effect then calls \<open>animate(lastTime.current)\<close>, the first frame.
\<close>

definition drag_mount :: "config \<Rightarrow> real list \<Rightarrow> real \<Rightarrow> drag_engine" where
  "drag_mount cfg vertices now =
     \<lparr>slides = mountSlides cfg vertices,
      currentPosition = - totalWidth cfg / 2,
      targetPosition = - totalWidth cfg / 2,
      autoScrollSpeed = 0,
      lastTime = now,
      prevPosition = 0,
      currentDistortionFactor = Fin 0,
      targetDistortionFactor = Fin 0,
      peakVelocity = Fin 0,
      velocityHistory = replicate 5 (Fin 0),
      isDragging = False,
      dragStartX = 0,
      dragLastX = 0\<rparr>"

definition slider_mount :: "real list \<Rightarrow> real \<Rightarrow> slider_engine" where
  "slider_mount vertices now =
     \<lparr>slides = mountSlides default_config vertices,
      currentPosition = - totalWidth default_config / 2,
      targetPosition = - totalWidth default_config / 2,
      autoScrollSpeed = 0,
      lastTime = now,
      prevPosition = 0,
      currentDistortionFactor = Fin 0,
      targetDistortionFactor = Fin 0,
      peakVelocity = Fin 0,
      velocityHistory = replicate 5 (Fin 0),
      isScrolling = False,
      touchStartX = 0,
      touchLastX = 0\<rparr>"

text \<open>A one-vertex buffer, the vertex at the centre of the plane, for concrete runs.\<close>

definition centre_vertex :: "real list" where
  "centre_vertex = [0, 0, 0]"


text \<open>
  An engine in the middle of a fast, steady movement: the last five frames measured the
  velocity 1, the target is 0.16 ahead, and the distortion is at its maximum. The draggable
  engine is in a drag, the scroll engine is scrolling.
\<close>

definition drag_moving :: drag_engine where
  "drag_moving =
     (drag_mount default_config centre_vertex 1000)
       \<lparr>targetPosition := - 15.5 + 0.16,
        velocityHistory := replicate 5 (Fin 1),
        peakVelocity := Fin 0.99,
        targetDistortionFactor := Fin 1,
        currentDistortionFactor := Fin 1,
        isDragging := True\<rparr>"

definition slider_moving :: slider_engine where
  "slider_moving =
     (slider_mount centre_vertex 1000)
       \<lparr>targetPosition := - 15.5 + 0.16,
        velocityHistory := replicate 5 (Fin 1),
        peakVelocity := Fin 0.99,
        targetDistortionFactor := Fin 1,
        currentDistortionFactor := Fin 1,
        isScrolling := True\<rparr>"

text \<open>An engine at rest in which an arrow key has just moved the target by one slide unit.\<close>

definition slider_after_key :: slider_engine where
  "slider_after_key = handleKeyDown (slideUnit default_config) ArrowLeft (slider_mount centre_vertex 1000)"

definition drag_after_key :: drag_engine where
  "drag_after_key =
     handleKeyDown (slideWidth default_config + gap default_config) ArrowLeft
       (drag_mount default_config centre_vertex 1000)"

text \<open>
  An engine that has just stopped after a fast movement: the last five frames measured the
  velocity 10, the position is within 0.001 of its target, the distortion has decayed to 0.
\<close>

definition drag_stopping :: drag_engine where
  "drag_stopping =
     (drag_mount default_config centre_vertex 1000)
       \<lparr>targetPosition := - 15.5 + 0.001,
        velocityHistory := replicate 5 (Fin 10),
        peakVelocity := Fin 10\<rparr>"

definition slider_stopping :: slider_engine where
  "slider_stopping =
     (slider_mount centre_vertex 1000)
       \<lparr>targetPosition := - 15.5 + 0.001,
        velocityHistory := replicate 5 (Fin 10),
        peakVelocity := Fin 10\<rparr>"

text \<open>
  The rise rule in the words of the specification, to compare with \<open>drag_raiseDistortion\<close>
  and \<open>slider_raiseDistortion\<close>: it tests and scales the average of the velocity history.
\<close>

definition spec_raiseDistortion :: "bool \<Rightarrow> jsnum \<Rightarrow> jsnum \<Rightarrow> jsnum" where
  "spec_raiseDistortion dragging avgVelocity target =
     (if jgt avgVelocity (Fin 0.05) \<or> dragging
      then jmax target (jmin (Fin 1) (jmul avgVelocity (Fin 0.15)))
      else target)"



text \<open>Slide 0 of the default strip as a frame at scroll position 16 leaves it: at \<open>x = 15\<close>.\<close>

definition slide_at_15 :: slide where
  "slide_at_15 =
     (centerSlide default_config (createSlide default_config centre_vertex 0))
       \<lparr>position_x := 15, targetX := Fin 15, currentX := Fin 15\<rparr>"


section \<open>The wrap layout in double precision\<close>











section \<open>Auxiliary notions\<close>

text \<open>The remainder of the floored division, which lies in \<open>[0, b)\<close> for a positive \<open>b\<close>.\<close>

definition fl_mod :: "real \<Rightarrow> real \<Rightarrow> real" where
  "fl_mod a b = a - b * of_int \<lfloor>a / b\<rfloor>"


text \<open>A number of the unit interval \<open>[0, 1]\<close>, and the order of finite numbers.\<close>

definition in_unit :: "jsnum \<Rightarrow> bool" where
  "in_unit x = (case x of Fin a \<Rightarrow> 0 \<le> a \<and> a \<le> 1 | _ \<Rightarrow> False)"

definition jle :: "jsnum \<Rightarrow> jsnum \<Rightarrow> bool" where
  "jle x y = (case x of Fin a \<Rightarrow> (case y of Fin b \<Rightarrow> a \<le> b | _ \<Rightarrow> False) | _ \<Rightarrow> False)"


section \<open>The truncated remainder\<close>

lemma fl_mod_range:
  assumes "0 < b"
  shows "0 \<le> fl_mod a b \<and> fl_mod a b < b"
proof -
  have lo: "of_int \<lfloor>a / b\<rfloor> * b \<le> a"
    using assms by (metis of_int_floor_le pos_le_divide_eq)
  have "a / b < of_int \<lfloor>a / b\<rfloor> + 1" by linarith
  then have hi: "a < (of_int \<lfloor>a / b\<rfloor> + 1) * b"
    using assms pos_divide_less_eq by blast
  show ?thesis
    using lo hi by (simp add: fl_mod_def algebra_simps)
qed

lemma fmod_small:
  assumes "0 \<le> a" "a < b"
  shows "fmod a b = a"
proof -
  have "0 \<le> a / b" "a / b < 1" using assms by simp_all
  then have "\<lfloor>a / b\<rfloor> = 0" by linarith
  then show ?thesis using \<open>0 \<le> a / b\<close> by (simp add: fmod_def trunc_def)
qed

lemma fmod_shift:
  assumes "0 \<le> a" "a < b"
  shows "fmod (a + b) b = a"
proof -
  have b: "0 < b" using assms by linarith
  have "(a + b) / b = a / b + 1" using b by (simp add: field_simps)
  moreover have "0 \<le> a / b" "a / b < 1" using assms b by simp_all
  ultimately have "\<lfloor>(a + b) / b\<rfloor> = 1" "0 \<le> (a + b) / b" by linarith+
  then show ?thesis by (simp add: fmod_def trunc_def)
qed

lemma fmod_normalise:
  assumes "0 < b"
  shows "fmod (fmod a b + b) b = fl_mod a b"
proof (cases "0 \<le> a")
  case True
  then have t: "0 \<le> a / b" using assms by simp
  have "fmod a b = fl_mod a b" using t by (simp add: fmod_def fl_mod_def trunc_def)
  then show ?thesis using fmod_shift [of "fl_mod a b" b] fl_mod_range [OF assms, of a] by simp
next
  case False
  then have neg: "a < 0" by simp
  then have q: "a / b < 0" using assms by (simp add: divide_neg_pos)
  show ?thesis
  proof (cases "of_int \<lceil>a / b\<rceil> = a / b")
    case True
    then have fc: "\<lfloor>a / b\<rfloor> = \<lceil>a / b\<rceil>" by (metis floor_of_int)
    have ab: "b * of_int \<lceil>a / b\<rceil> = a" unfolding True using assms by simp
    have z: "fmod a b = 0" using q ab by (simp add: fmod_def trunc_def)
    have "fl_mod a b = 0" using fc ab by (simp add: fl_mod_def)
    moreover have "fmod (0 + b) b = 0" using fmod_shift [of 0 b] assms by simp
    ultimately show ?thesis using z by simp
  next
    case False
    then have fc: "\<lceil>a / b\<rceil> = \<lfloor>a / b\<rfloor> + 1"
      by (metis ceiling_altdef of_int_floor_cancel)
    have e: "fmod a b + b = fl_mod a b" using q fc by (simp add: fmod_def fl_mod_def trunc_def algebra_simps)
    show ?thesis using e fmod_small [of "fl_mod a b" b] fl_mod_range [OF assms, of a] by simp
  qed
qed

lemma fl_mod_period:
  assumes "0 < b"
  shows "fl_mod (a - b) b = fl_mod a b" and "fl_mod (a + b) b = fl_mod a b"
proof -
  have "(a - b) / b = a / b - 1" using assms by (simp add: field_simps)
  then have "\<lfloor>(a - b) / b\<rfloor> = \<lfloor>a / b\<rfloor> - 1" by simp
  then have e1: "of_int \<lfloor>(a - b) / b\<rfloor> = (of_int \<lfloor>a / b\<rfloor> :: real) - 1" by simp
  show "fl_mod (a - b) b = fl_mod a b" unfolding fl_mod_def e1 by (simp add: algebra_simps)
  have "(a + b) / b = a / b + 1" using assms by (simp add: field_simps)
  then have "\<lfloor>(a + b) / b\<rfloor> = \<lfloor>a / b\<rfloor> + 1" by simp
  then have e2: "of_int \<lfloor>(a + b) / b\<rfloor> = (of_int \<lfloor>a / b\<rfloor> :: real) + 1" by simp
  show "fl_mod (a + b) b = fl_mod a b" unfolding fl_mod_def e2 by (simp add: algebra_simps)
qed


text \<open>
  \<open>((a % b) + b) % b\<close> is the floored remainder: the first \<open>%\<close> lands in \<open>(-b, b)\<close>, adding \<open>b\<close>
  makes it non-negative, the second \<open>%\<close> brings it below \<open>b\<close>.
\<close>

lemma wrapBaseX_eq:
  assumes "0 < totalWidth cfg"
  shows "wrapBaseX cfg i p =
    (let r = fl_mod (real i * slideUnit cfg - p) (totalWidth cfg)
     in Fin (if totalWidth cfg / 2 < r then r - totalWidth cfg else r))"
  using assms fmod_normalise [OF assms, of "real i * slideUnit cfg - p"]
  by (simp add: wrapBaseX_def Let_def jgt_def jsub_def)

lemma wrap_interval:
  assumes "0 < totalWidth cfg"
  shows "\<exists>w. wrapBaseX cfg i p = Fin w \<and> - (totalWidth cfg / 2) < w \<and> w \<le> totalWidth cfg / 2"
  using fl_mod_range [OF assms, of "real i * slideUnit cfg - p"]
  by (simp add: wrapBaseX_eq [OF assms] Let_def)


section \<open>The wrap layout in a frame\<close>

lemma drag_updateCurve_fields [simp]:
  "targetX (drag_updateCurve m x d) = targetX m"
  "currentX (drag_updateCurve m x d) = currentX m"
  "position_x (drag_updateCurve m x d) = position_x m"
  "originalVertices (drag_updateCurve m x d) = originalVertices m"
  "scale_x (drag_updateCurve m x d) = scale_x m"
  "scale_y (drag_updateCurve m x d) = scale_y m"
  by (simp_all add: drag_updateCurve_def Let_def split: option.split)

lemma slider_updateCurve_fields [simp]:
  "targetX (slider_updateCurve m x d) = targetX m"
  "currentX (slider_updateCurve m x d) = currentX m"
  "position_x (slider_updateCurve m x d) = position_x m"
  "originalVertices (slider_updateCurve m x d) = originalVertices m"
  "scale_x (slider_updateCurve m x d) = scale_x m"
  "scale_y (slider_updateCurve m x d) = scale_y m"
  by (simp_all add: slider_updateCurve_def Let_def split: option.split)

lemma targetX_placeSlide:
  assumes "\<And>m x d. targetX (upd m x d) = targetX m"
  shows "targetX (placeSlide upd cfg d b sl) = b"
  by (simp add: placeSlide_def Let_def assms split: jsnum.split)

lemma in_layoutSlides:
  assumes "sl' \<in> set (layoutSlides upd cfg p d sls)"
  shows "\<exists>i sl. i < length sls \<and> sl = sls ! i \<and> sl' = layoutSlide upd cfg p d i sl"
  using assms by (auto simp: layoutSlides_def in_set_enumerate_eq)

lemma length_layoutSlides: "length (layoutSlides upd cfg p d sls) = length sls"
  by (simp add: layoutSlides_def)

lemma slides_drag_animate:
  "slides (drag_animate cfg time s) =
     layoutSlides drag_updateCurve cfg (currentPosition (drag_animate cfg time s))
       (currentDistortionFactor (drag_animate cfg time s)) (slides s)"
  by (simp add: drag_animate_def Let_def split: prod.split)

lemma slides_slider_animate:
  "slides (slider_animate time s) =
     layoutSlides slider_updateCurve default_config (currentPosition (slider_animate time s))
       (currentDistortionFactor (slider_animate time s)) (slides s)"
  by (simp add: slider_animate_def Let_def split: prod.split)

lemma totalWidth_default: "totalWidth default_config = 31"
  by (simp add: totalWidth_def default_config_def)


text \<open>
  Claim C1 (wrap invariant). For a positive \<open>totalWidth\<close>, every slide index and every
  scroll position, the wrapped base position is a finite number in the half-open interval
  \<open>(-totalWidth / 2, totalWidth / 2]\<close>; hence after a frame update of either component the
  \<open>targetX\<close> of every slide lies in that interval.
\<close>

theorem wrap_invariant:
  assumes "0 < totalWidth cfg"
  shows "(\<exists>w. wrapBaseX cfg i p = Fin w \<and> - (totalWidth cfg / 2) < w \<and> w \<le> totalWidth cfg / 2)
    \<and> (\<forall>sl \<in> set (slides (drag_animate cfg time s)).
          \<exists>w. targetX sl = Fin w \<and> - (totalWidth cfg / 2) < w \<and> w \<le> totalWidth cfg / 2)
    \<and> (\<forall>sl \<in> set (slides (slider_animate time t)).
          \<exists>w. targetX sl = Fin w \<and> - (totalWidth default_config / 2) < w
            \<and> w \<le> totalWidth default_config / 2)"
proof (intro conjI ballI)
  show "\<exists>w. wrapBaseX cfg i p = Fin w \<and> - (totalWidth cfg / 2) < w \<and> w \<le> totalWidth cfg / 2"
    by (rule wrap_interval [OF assms])
next
  fix sl assume "sl \<in> set (slides (drag_animate cfg time s))"
  then obtain j sl0 where "sl = layoutSlide drag_updateCurve cfg
      (currentPosition (drag_animate cfg time s))
      (currentDistortionFactor (drag_animate cfg time s)) j sl0"
    unfolding slides_drag_animate using in_layoutSlides by blast
  then have "targetX sl = wrapBaseX cfg j (currentPosition (drag_animate cfg time s))"
    by (simp add: layoutSlide_def targetX_placeSlide)
  then show "\<exists>w. targetX sl = Fin w \<and> - (totalWidth cfg / 2) < w \<and> w \<le> totalWidth cfg / 2"
    using wrap_interval [OF assms] by simp
next
  fix sl assume "sl \<in> set (slides (slider_animate time t))"
  then obtain j sl0 where "sl = layoutSlide slider_updateCurve default_config
      (currentPosition (slider_animate time t))
      (currentDistortionFactor (slider_animate time t)) j sl0"
    unfolding slides_slider_animate using in_layoutSlides by blast
  then have "targetX sl = wrapBaseX default_config j (currentPosition (slider_animate time t))"
    by (simp add: layoutSlide_def targetX_placeSlide)
  moreover have "0 < totalWidth default_config" by (simp add: totalWidth_default)
  ultimately show "\<exists>w. targetX sl = Fin w \<and> - (totalWidth default_config / 2) < w
            \<and> w \<le> totalWidth default_config / 2"
    using wrap_interval [of default_config] by simp
qed


theorem wrap_invariant_witness:
  "0 < totalWidth default_config
   \<and> (\<exists>w. wrapBaseX default_config 0 15.4 = Fin w \<and> - (totalWidth default_config / 2) < w
        \<and> w \<le> totalWidth default_config / 2)
   \<and> (\<exists>w. targetX (slides (drag_animate default_config 1016
                 (drag_mount default_config centre_vertex 1000)) ! 7) = Fin w
        \<and> - (totalWidth default_config / 2) < w \<and> w \<le> totalWidth default_config / 2)"
proof -
  let ?s = "drag_animate default_config 1016 (drag_mount default_config centre_vertex 1000)"
  have pos: "0 < totalWidth default_config" by (simp add: totalWidth_default)
  have "length (slides ?s) = 10"
    unfolding slides_drag_animate
    by (simp add: length_layoutSlides drag_mount_def mountSlides_def default_config_def)
  then have mem: "slides ?s ! 7 \<in> set (slides ?s)" by simp
  show ?thesis
    using pos mem
      wrap_invariant [OF pos, of 0 "15.4" 1016 "drag_mount default_config centre_vertex 1000"]
    by blast
qed

text \<open>
  Without rounding the layout is periodic in the scroll position, with period \<open>totalWidth\<close>.
\<close>

lemma wrap_periodic_exact:
  assumes "0 < totalWidth cfg"
  shows "wrapBaseX cfg i (p + totalWidth cfg) = wrapBaseX cfg i p
       \<and> wrapBaseX cfg i (p - totalWidth cfg) = wrapBaseX cfg i p"
proof -
  let ?a = "real i * slideUnit cfg - p"
  have e: "real i * slideUnit cfg - (p + totalWidth cfg) = ?a - totalWidth cfg"
       "real i * slideUnit cfg - (p - totalWidth cfg) = ?a + totalWidth cfg"
    by simp_all
  show ?thesis
    unfolding wrapBaseX_eq [OF assms] e fl_mod_period [OF assms] by simp
qed


section \<open>Concrete values of the wrap\<close>

lemma fl_mod_value:
  assumes "0 < b" and "0 \<le> r" and "r < b" and "a = r + b * of_int k"
  shows "fl_mod a b = r"
proof -
  have "a / b = r / b + of_int k" using assms(1,4) by (simp add: field_simps)
  moreover have "0 \<le> r / b" "r / b < 1" using assms(1,2,3) by simp_all
  ultimately have "\<lfloor>a / b\<rfloor> = k" by linarith
  then show ?thesis using assms(4) by (simp add: fl_mod_def)
qed

lemma wrapBaseX_value:
  assumes "0 < totalWidth cfg" and "0 \<le> r" and "r < totalWidth cfg"
    and "real i * slideUnit cfg - p = r + totalWidth cfg * of_int k"
  shows "wrapBaseX cfg i p = Fin (if totalWidth cfg / 2 < r then r - totalWidth cfg else r)"
  unfolding wrapBaseX_eq [OF assms(1)] fl_mod_value [OF assms] by (simp add: Let_def)

lemma slideUnit_default: "slideUnit default_config = 3.1"
  by (simp add: slideUnit_def default_config_def)


section \<open>Wrap-jump suppression\<close>

lemma currentX_placeSlide:
  assumes "\<And>m x d. currentX (upd m x d) = currentX m"
  shows "currentX (placeSlide upd cfg d b sl) =
     (let cx0 = (if isWrapping cfg b sl then b else currentX sl)
      in jadd cx0 (jmul (jsub b cx0) (Fin slideLerp)))"
  by (simp add: placeSlide_def Let_def assms split: jsnum.split)

lemma isWrapping_Fin:
  "targetX sl = Fin t \<Longrightarrow> isWrapping cfg (Fin b) sl = (slideWidth cfg * 2 < \<bar>b - t\<bar>)"
  by (simp add: isWrapping_def jgt_def jsub_def)

lemma place_jump:
  assumes "\<And>m x d. currentX (upd m x d) = currentX m"
    and "targetX sl = Fin t" and "slideWidth cfg * 2 < \<bar>b - t\<bar>"
  shows "currentX (placeSlide upd cfg d (Fin b) sl) = Fin b"
  using assms(2,3) by (simp add: currentX_placeSlide [OF assms(1)] isWrapping_Fin jsub_def)

lemma place_ease:
  assumes "\<And>m x d. currentX (upd m x d) = currentX m"
    and "targetX sl = Fin t" and "currentX sl = Fin c" and "\<bar>b - t\<bar> \<le> slideWidth cfg * 2"
  shows "currentX (placeSlide upd cfg d (Fin b) sl) = Fin (c + (b - c) * slideLerp)"
  using assms(2,3,4) by (simp add: currentX_placeSlide [OF assms(1)] isWrapping_Fin jsub_def)


text \<open>
  Claim C7 (wrap-jump suppression). For a slide whose stored \<open>targetX\<close> and \<open>currentX\<close> are the
  numbers \<open>t\<close> and \<open>c\<close> and whose newly wrapped base position is \<open>b\<close>: when \<open>b\<close> differs from \<open>t\<close>
  by more than \<open>2 * slideWidth\<close>, the frame update leaves \<open>currentX = b\<close> (the lerp is
  bypassed); when the difference is at most \<open>2 * slideWidth\<close>, it leaves
  \<open>currentX = c + (b - c) * slideLerp\<close>. In the default configuration (\<open>totalWidth = 31\<close>), a slide
  with previous \<open>targetX = 15.0\<close> that is placed at the wrapped value \<open>-15.5\<close> ends with
  \<open>currentX = -15.5\<close>. The last two conjuncts are about the placement step after the wrap,
  since by the wrap invariant the wrap itself returns \<open>15.5\<close>, never \<open>-15.5\<close>.
\<close>

theorem wrap_jump_suppression:
  assumes "targetX sl = Fin t" and "currentX sl = Fin c" and "wrapBaseX cfg i p = Fin b"
  shows "(slideWidth cfg * 2 < \<bar>b - t\<bar> \<longrightarrow>
            currentX (layoutSlide drag_updateCurve cfg p d i sl) = Fin b
          \<and> currentX (layoutSlide slider_updateCurve cfg p d i sl) = Fin b)
       \<and> (\<bar>b - t\<bar> \<le> slideWidth cfg * 2 \<longrightarrow>
            currentX (layoutSlide drag_updateCurve cfg p d i sl) = Fin (c + (b - c) * slideLerp)
          \<and> currentX (layoutSlide slider_updateCurve cfg p d i sl) = Fin (c + (b - c) * slideLerp))
       \<and> currentX (placeSlide drag_updateCurve default_config d (Fin (- 15.5))
            (sl\<lparr>targetX := Fin 15.0\<rparr>)) = Fin (- 15.5)
       \<and> currentX (placeSlide slider_updateCurve default_config d (Fin (- 15.5))
            (sl\<lparr>targetX := Fin 15.0\<rparr>)) = Fin (- 15.5)"
proof -
  have j: "slideWidth default_config * 2 < \<bar>- 15.5 - (15.0::real)\<bar>"
    by (simp add: default_config_def)
  have t: "targetX (sl\<lparr>targetX := Fin 15.0\<rparr>) = Fin 15.0" by simp
  show ?thesis
    unfolding layoutSlide_def assms(3)
    using place_jump [of drag_updateCurve sl t cfg b d, OF _ assms(1)]
      place_jump [of slider_updateCurve sl t cfg b d, OF _ assms(1)]
      place_ease [of drag_updateCurve sl t c b cfg d, OF _ assms(1,2)]
      place_ease [of slider_updateCurve sl t c b cfg d, OF _ assms(1,2)]
      place_jump [of drag_updateCurve _ _ default_config _ d, OF _ t j]
      place_jump [of slider_updateCurve _ _ default_config _ d, OF _ t j]
    by simp
qed

theorem wrap_jump_suppression_witness:
  "targetX slide_at_15 = Fin 15 \<and> currentX slide_at_15 = Fin 15
   \<and> wrapBaseX default_config 0 15.4 = Fin (- 15.4)
   \<and> slideWidth default_config * 2 < \<bar>- 15.4 - (15::real)\<bar>
   \<and> currentX (layoutSlide drag_updateCurve default_config 15.4 (Fin 0) 0 slide_at_15)
       = Fin (- 15.4)
   \<and> wrapBaseX default_config 0 15.5 = Fin 15.5
   \<and> \<bar>15.5 - (15::real)\<bar> \<le> slideWidth default_config * 2
   \<and> currentX (layoutSlide drag_updateCurve default_config 15.5 (Fin 0) 0 slide_at_15)
       = Fin (15 + (15.5 - 15) * slideLerp)"
proof -
  have t: "targetX slide_at_15 = Fin 15" and c: "currentX slide_at_15 = Fin 15"
    by (simp_all add: slide_at_15_def)
  have w1: "wrapBaseX default_config 0 15.4 = Fin (- 15.4)"
    using wrapBaseX_value [of default_config "15.6" 0 "15.4" "-1"]
    by (simp add: totalWidth_default slideUnit_default)
  have w2: "wrapBaseX default_config 0 15.5 = Fin 15.5"
    using wrapBaseX_value [of default_config "15.5" 0 "15.5" "-1"]
    by (simp add: totalWidth_default slideUnit_default)
  have far: "slideWidth default_config * 2 < \<bar>- 15.4 - (15::real)\<bar>"
    and near: "\<bar>15.5 - (15::real)\<bar> \<le> slideWidth default_config * 2"
    by (simp_all add: default_config_def)
  show ?thesis
    using t c w1 w2 far near
      wrap_jump_suppression [OF t c w1, of "Fin 0"]
      wrap_jump_suppression [OF t c w2, of "Fin 0"]
    by simp
qed


section \<open>The displacement field\<close>

lemma length_setZ [simp]: "length (setZ arr i z) = length arr"
  by (simp add: setZ_def)

lemma length_writeZ [simp]:
  "length (fold (\<lambda>i arr. setZ arr i (f i)) [0..<n] arr) = length arr"
  by (induction n) simp_all

lemma nth_setZ:
  "j < length arr \<Longrightarrow> setZ arr i z ! j = (if j = i * 3 + 2 then z else arr ! j)"
  by (simp add: setZ_def nth_list_update)

lemma slot_iff: "(j = n * 3 + 2) = (j mod 3 = 2 \<and> j div 3 = n)" for j n :: nat
  by presburger

lemma nth_writeZ:
  "j < length arr \<Longrightarrow>
   fold (\<lambda>i arr. setZ arr i (f i)) [0..<n] arr ! j =
     (if j mod 3 = 2 \<and> j div 3 < n then f (j div 3) else arr ! j)"
proof (induction n)
  case 0
  then show ?case by simp
next
  case (Suc n)
  let ?g = "\<lambda>i arr. setZ arr i (f i)"
  have "fold ?g [0..<Suc n] arr ! j = setZ (fold ?g [0..<n] arr) n (f n) ! j" by simp
  also have "\<dots> = (if j = n * 3 + 2 then f n else fold ?g [0..<n] arr ! j)"
    using Suc.prems by (simp add: nth_setZ)
  also have "\<dots> = (if j mod 3 = 2 \<and> j div 3 < Suc n then f (j div 3) else arr ! j)"
  proof (cases "j = n * 3 + 2")
    case True
    then have "j mod 3 = 2" "j div 3 = n" by presburger+
    then show ?thesis using True by simp
  next
    case False
    then have "\<not> (j mod 3 = 2 \<and> j div 3 = n)" using slot_iff [of j n] by simp
    then show ?thesis using False Suc.IH [OF Suc.prems] by (auto simp: less_Suc_eq)
  qed
  finally show ?case .
qed

lemma writeZ_twice:
  "fold (\<lambda>i arr. setZ arr i (f i)) [0..<n]
     (fold (\<lambda>i arr. setZ arr i (f i)) [0..<n] arr)
   = fold (\<lambda>i arr. setZ arr i (f i)) [0..<n] arr"
  by (rule nth_equalityI) (simp_all add: nth_writeZ)

lemma z_slot_in_count:
  "j < length arr \<Longrightarrow> j mod 3 = 2 \<Longrightarrow> j div 3 < vertexCount arr"
  unfolding vertexCount_def by presburger

lemma drag_updateCurve_array:
  assumes "originalVertices m = Some ov" and "j < length (positionArray m)"
  shows "positionArray (drag_updateCurve m wx d) ! j =
     (if j mod 3 = 2
      then drag_vertexZ ov wx (scale_x m) (scale_y m) (jmul (Fin maxDistortion) d) (j div 3)
      else positionArray m ! j)"
  using assms by (simp add: drag_updateCurve_def Let_def nth_writeZ z_slot_in_count)

lemma slider_updateCurve_array:
  assumes "originalVertices m = Some ov" and "j < length (positionArray m)"
  shows "positionArray (slider_updateCurve m wx d) ! j =
     (if j mod 3 = 2
      then slider_vertexZ ov wx (jmul (Fin maxDistortion) d) (j div 3)
      else positionArray m ! j)"
  using assms by (simp add: slider_updateCurve_def Let_def nth_writeZ z_slot_in_count)

lemma length_drag_updateCurve [simp]:
  "length (positionArray (drag_updateCurve m wx d)) = length (positionArray m)"
  by (simp add: drag_updateCurve_def Let_def split: option.split)

lemma length_slider_updateCurve [simp]:
  "length (positionArray (slider_updateCurve m wx d)) = length (positionArray m)"
  by (simp add: slider_updateCurve_def Let_def split: option.split)

lemma drag_updateCurve_xy:
  assumes "j < length (positionArray m)" and "j mod 3 \<noteq> 2"
  shows "positionArray (drag_updateCurve m wx d) ! j = positionArray m ! j"
  using assms by (simp add: drag_updateCurve_def Let_def nth_writeZ split: option.split)

lemma slider_updateCurve_xy:
  assumes "j < length (positionArray m)" and "j mod 3 \<noteq> 2"
  shows "positionArray (slider_updateCurve m wx d) ! j = positionArray m ! j"
  using assms by (simp add: slider_updateCurve_def Let_def nth_writeZ split: option.split)

lemma drag_updateCurve_idem:
  "drag_updateCurve (drag_updateCurve m wx d) wx d = drag_updateCurve m wx d"
  by (cases "originalVertices m")
     (simp_all add: drag_updateCurve_def Let_def vertexCount_def writeZ_twice)

lemma slider_updateCurve_idem:
  "slider_updateCurve (slider_updateCurve m wx d) wx d = slider_updateCurve m wx d"
  by (cases "originalVertices m")
     (simp_all add: slider_updateCurve_def Let_def vertexCount_def writeZ_twice)

lemma placeSlide_originalVertices:
  assumes "\<And>m x d. originalVertices (upd m x d) = originalVertices m"
  shows "originalVertices (placeSlide upd cfg d b sl) = originalVertices sl"
  by (simp add: placeSlide_def Let_def assms split: jsnum.split)

lemma layoutSlides_originalVertices:
  assumes "\<And>m x d. originalVertices (upd m x d) = originalVertices m"
  shows "map originalVertices (layoutSlides upd cfg p d sls) = map originalVertices sls"
proof (rule nth_equalityI)
  show "length (map originalVertices (layoutSlides upd cfg p d sls)) = length (map originalVertices sls)"
    by (simp add: length_layoutSlides)
next
  fix i assume "i < length (map originalVertices (layoutSlides upd cfg p d sls))"
  then have i: "i < length sls" by (simp add: length_layoutSlides)
  then show "map originalVertices (layoutSlides upd cfg p d sls) ! i = map originalVertices sls ! i"
    by (simp add: layoutSlides_def nth_enumerate_eq layoutSlide_def
        placeSlide_originalVertices [OF assms])
qed

lemma placeSlide_xy:
  assumes "\<And>m x d j. j < length (positionArray m) \<Longrightarrow> j mod 3 \<noteq> 2 \<Longrightarrow>
             positionArray (upd m x d) ! j = positionArray m ! j"
    and "j < length (positionArray sl)" and "j mod 3 \<noteq> 2"
  shows "positionArray (placeSlide upd cfg d b sl) ! j = positionArray sl ! j"
  using assms(2,3) by (simp add: placeSlide_def Let_def assms(1) split: jsnum.split)

lemma layoutSlides_xy:
  assumes "\<And>m x d j. j < length (positionArray m) \<Longrightarrow> j mod 3 \<noteq> 2 \<Longrightarrow>
             positionArray (upd m x d) ! j = positionArray m ! j"
    and "i < length sls" and "j < length (positionArray (sls ! i))" and "j mod 3 \<noteq> 2"
  shows "positionArray (layoutSlides upd cfg p d sls ! i) ! j = positionArray (sls ! i) ! j"
  using assms(2,3,4)
  by (simp add: layoutSlides_def nth_enumerate_eq layoutSlide_def placeSlide_xy [OF assms(1)])

lemma frame_xy:
  "\<forall>i < length (slides s). \<forall>j < length (positionArray (slides s ! i)). j mod 3 \<noteq> 2 \<longrightarrow>
      positionArray (slides (drag_animate cfg time s) ! i) ! j = positionArray (slides s ! i) ! j"
  "\<forall>i < length (slides t). \<forall>j < length (positionArray (slides t ! i)). j mod 3 \<noteq> 2 \<longrightarrow>
      positionArray (slides (slider_animate time t) ! i) ! j = positionArray (slides t ! i) ! j"
  unfolding slides_drag_animate slides_slider_animate
  by (simp_all add: layoutSlides_xy drag_updateCurve_xy slider_updateCurve_xy)

text \<open>
  Claim C9 (displacement frame effect). \<open>updateCurve\<close> of either component leaves
  \<open>originalVertices\<close> and the length of the live buffer unchanged, and every entry of the live
  buffer that is not a z slot (index \<open>j\<close> with \<open>j mod 3 \<noteq> 2\<close>: the x and y coordinates). The new z of
  vertex \<open>i\<close> is \<open>curveZ\<close> of the distance computed from the original \<open>(x, y)\<close> of that vertex, the
  world X (and the scale, in \<open>ThreeSliderDraggable\<close>) and of the distortion factor; the old z
  does not enter. Running \<open>updateCurve\<close> twice with the same arguments gives the same mesh as
  running it once, and a whole frame update leaves \<open>originalVertices\<close> and the x and y
  coordinates of the live buffer of every slide unchanged.
\<close>

theorem displacement_frame_effect:
  "originalVertices (drag_updateCurve m wx d) = originalVertices m
   \<and> originalVertices (slider_updateCurve m wx d) = originalVertices m
   \<and> length (positionArray (drag_updateCurve m wx d)) = length (positionArray m)
   \<and> length (positionArray (slider_updateCurve m wx d)) = length (positionArray m)
   \<and> (\<forall>j < length (positionArray m). j mod 3 \<noteq> 2 \<longrightarrow>
         positionArray (drag_updateCurve m wx d) ! j = positionArray m ! j
       \<and> positionArray (slider_updateCurve m wx d) ! j = positionArray m ! j)
   \<and> (\<forall>ov i. originalVertices m = Some ov \<and> i < vertexCount (positionArray m)
          \<and> i * 3 + 1 < length ov \<longrightarrow>
         positionArray (drag_updateCurve m wx d) ! (i * 3 + 2) =
           curveZ (sqrt ((wx + ov ! (i * 3) * scale_x m)\<^sup>2 + (ov ! (i * 3 + 1) * scale_y m)\<^sup>2))
             (jmul (Fin maxDistortion) d)
       \<and> positionArray (slider_updateCurve m wx d) ! (i * 3 + 2) =
           curveZ (sqrt ((wx + ov ! (i * 3))\<^sup>2 + (ov ! (i * 3 + 1))\<^sup>2))
             (jmul (Fin maxDistortion) d))
   \<and> drag_updateCurve (drag_updateCurve m wx d) wx d = drag_updateCurve m wx d
   \<and> slider_updateCurve (slider_updateCurve m wx d) wx d = slider_updateCurve m wx d
   \<and> map originalVertices (slides (drag_animate cfg time s)) = map originalVertices (slides s)
   \<and> map originalVertices (slides (slider_animate time t)) = map originalVertices (slides t)
   \<and> (\<forall>i < length (slides s). \<forall>j < length (positionArray (slides s ! i)). j mod 3 \<noteq> 2 \<longrightarrow>
         positionArray (slides (drag_animate cfg time s) ! i) ! j = positionArray (slides s ! i) ! j)
   \<and> (\<forall>i < length (slides t). \<forall>j < length (positionArray (slides t ! i)). j mod 3 \<noteq> 2 \<longrightarrow>
         positionArray (slides (slider_animate time t) ! i) ! j = positionArray (slides t ! i) ! j)"
proof -
  have z: "positionArray (drag_updateCurve m wx d) ! (i * 3 + 2) =
           curveZ (sqrt ((wx + ov ! (i * 3) * scale_x m)\<^sup>2 + (ov ! (i * 3 + 1) * scale_y m)\<^sup>2))
             (jmul (Fin maxDistortion) d)
       \<and> positionArray (slider_updateCurve m wx d) ! (i * 3 + 2) =
           curveZ (sqrt ((wx + ov ! (i * 3))\<^sup>2 + (ov ! (i * 3 + 1))\<^sup>2))
             (jmul (Fin maxDistortion) d)"
    if "originalVertices m = Some ov" "i < vertexCount (positionArray m)" "i * 3 + 1 < length ov"
    for ov i
  proof -
    have "i * 3 + 2 < length (positionArray m)"
      using that(2) unfolding vertexCount_def by presburger
    moreover have "(i * 3 + 2) mod 3 = 2" "(i * 3 + 2) div 3 = i" by presburger+
    ultimately show ?thesis
      using that(1,3)
      by (simp add: drag_updateCurve_array slider_updateCurve_array
          drag_vertexZ_def slider_vertexZ_def Let_def)
  qed
  have u: "originalVertices (drag_updateCurve m wx d) = originalVertices m
   \<and> originalVertices (slider_updateCurve m wx d) = originalVertices m
   \<and> length (positionArray (drag_updateCurve m wx d)) = length (positionArray m)
   \<and> length (positionArray (slider_updateCurve m wx d)) = length (positionArray m)
   \<and> (\<forall>j < length (positionArray m). j mod 3 \<noteq> 2 \<longrightarrow>
         positionArray (drag_updateCurve m wx d) ! j = positionArray m ! j
       \<and> positionArray (slider_updateCurve m wx d) ! j = positionArray m ! j)
   \<and> drag_updateCurve (drag_updateCurve m wx d) wx d = drag_updateCurve m wx d
   \<and> slider_updateCurve (slider_updateCurve m wx d) wx d = slider_updateCurve m wx d
   \<and> map originalVertices (slides (drag_animate cfg time s)) = map originalVertices (slides s)
   \<and> map originalVertices (slides (slider_animate time t)) = map originalVertices (slides t)"
    by (simp add: drag_updateCurve_xy slider_updateCurve_xy drag_updateCurve_idem
        slider_updateCurve_idem slides_drag_animate slides_slider_animate
        layoutSlides_originalVertices)
  show ?thesis
    using z u frame_xy(1) [of s cfg time] frame_xy(2) [of t time] by blast
qed

lemma curveZ_centre: "curveZ 0 (Fin c) = Fin c"
  by (simp add: curveZ_def distortionRadius_def pow15_def)

theorem displacement_frame_effect_witness:
  "originalVertices (createSlide default_config centre_vertex 0) = Some centre_vertex
   \<and> 0 < vertexCount (positionArray (createSlide default_config centre_vertex 0))
   \<and> 0 * 3 + 1 < length centre_vertex
   \<and> (1::nat) < length (positionArray (createSlide default_config centre_vertex 0))
   \<and> (1::nat) mod 3 \<noteq> 2
   \<and> positionArray (drag_updateCurve (createSlide default_config centre_vertex 0) 0 (Fin 1)) ! 2
       = Fin 2.5
   \<and> positionArray (drag_updateCurve (createSlide default_config centre_vertex 0) 0 (Fin 1)) ! 1
       = Fin 0
   \<and> positionArray (drag_updateCurve
         (drag_updateCurve (createSlide default_config centre_vertex 0) 0 (Fin 1)) 0 (Fin 1)) ! 2
       = Fin 2.5"
proof -
  let ?m = "createSlide default_config centre_vertex 0"
  note T = displacement_frame_effect [of ?m 0 "Fin 1"]
  have ov: "originalVertices ?m = Some centre_vertex"
    and cnt: "0 < vertexCount (positionArray ?m)"
    and len: "0 * 3 + 1 < length centre_vertex"
    and one: "(1::nat) < length (positionArray ?m)" "(1::nat) mod 3 \<noteq> 2"
    by (simp_all add: createSlide_def centre_vertex_def vertexCount_def)
  from T have "\<forall>j < length (positionArray ?m). j mod 3 \<noteq> 2 \<longrightarrow>
      positionArray (drag_updateCurve ?m 0 (Fin 1)) ! j = positionArray ?m ! j" by blast
  with one have y: "positionArray (drag_updateCurve ?m 0 (Fin 1)) ! 1 = Fin 0"
    by (simp add: createSlide_def centre_vertex_def)
  have two: "0 * 3 + 2 = (2::nat)" by simp
  from T ov cnt len have "positionArray (drag_updateCurve ?m 0 (Fin 1)) ! (0 * 3 + 2) =
      curveZ (sqrt ((0 + centre_vertex ! (0 * 3) * scale_x ?m)\<^sup>2
                  + (centre_vertex ! (0 * 3 + 1) * scale_y ?m)\<^sup>2))
        (jmul (Fin maxDistortion) (Fin 1))" by blast
  then have z: "positionArray (drag_updateCurve ?m 0 (Fin 1)) ! 2 = Fin 2.5"
    unfolding two by (simp add: centre_vertex_def curveZ_centre maxDistortion_def)
  from T have "drag_updateCurve (drag_updateCurve ?m 0 (Fin 1)) 0 (Fin 1)
      = drag_updateCurve ?m 0 (Fin 1)" by blast
  with z have zz: "positionArray (drag_updateCurve (drag_updateCurve ?m 0 (Fin 1)) 0 (Fin 1)) ! 2
      = Fin 2.5" by simp
  show ?thesis using ov cnt len one y z zz by simp
qed


section \<open>The fields of the engine after a frame\<close>

lemma drag_animate_fields:
  "currentPosition (drag_animate cfg time s) =
     smoothPosition (currentPosition s)
       (fst (drag_momentum (isDragging s) (targetPosition s) (autoScrollSpeed s)))"
  "targetPosition (drag_animate cfg time s) =
     fst (drag_momentum (isDragging s) (targetPosition s) (autoScrollSpeed s))"
  "autoScrollSpeed (drag_animate cfg time s) =
     snd (drag_momentum (isDragging s) (targetPosition s) (autoScrollSpeed s))"
  "lastTime (drag_animate cfg time s) = time"
  "isDragging (drag_animate cfg time s) = isDragging s"
  "velocityHistory (drag_animate cfg time s) =
     pushVelocity (velocityHistory s) (drag_frameVelocity time s)"
  "peakVelocity (drag_animate cfg time s) = jmul (drag_framePeak time s) (Fin 0.99)"
  "targetDistortionFactor (drag_animate cfg time s) =
     jmul (drag_raiseDistortion (isDragging s) (drag_frameVelocity time s)
            (targetDistortionFactor s))
       (Fin (drag_frameDecay time s))"
  "currentDistortionFactor (drag_animate cfg time s) =
     smoothDistortion (currentDistortionFactor s) (targetDistortionFactor (drag_animate cfg time s))"
  by (simp_all add: drag_animate_def drag_frameVelocity_def drag_frameAverage_def
      drag_framePeak_def drag_frameDecay_def Let_def split: prod.split)

lemma slider_animate_fields:
  "currentPosition (slider_animate time s) =
     smoothPosition (currentPosition s)
       (fst (slider_momentum (isScrolling s) (targetPosition s) (autoScrollSpeed s)))"
  "targetPosition (slider_animate time s) =
     fst (slider_momentum (isScrolling s) (targetPosition s) (autoScrollSpeed s))"
  "autoScrollSpeed (slider_animate time s) =
     snd (slider_momentum (isScrolling s) (targetPosition s) (autoScrollSpeed s))"
  "lastTime (slider_animate time s) = time"
  "isScrolling (slider_animate time s) = isScrolling s"
  "velocityHistory (slider_animate time s) =
     pushVelocity (velocityHistory s) (slider_frameVelocity time s)"
  "peakVelocity (slider_animate time s) = jmul (slider_framePeak time s) (Fin 0.99)"
  "targetDistortionFactor (slider_animate time s) =
     jmul (slider_raiseDistortion (slider_frameVelocity time s) (targetDistortionFactor s))
       (Fin (slider_frameDecay time s))"
  "currentDistortionFactor (slider_animate time s) =
     smoothDistortion (currentDistortionFactor s) (targetDistortionFactor (slider_animate time s))"
  by (simp_all add: slider_animate_def slider_frameVelocity_def slider_frameAverage_def
      slider_framePeak_def slider_frameDecay_def Let_def split: prod.split)



section \<open>A fast, steady movement\<close>

lemma drag_moving_velocity: "drag_frameVelocity 1016 drag_moving = Fin 1"
  by (simp add: drag_frameVelocity_def drag_moving_def drag_mount_def drag_momentum_def
      smoothPosition_def smoothing_def drag_currentVelocity_def deltaTime_def totalWidth_default)

lemma slider_moving_velocity: "slider_frameVelocity 1016 slider_moving = Fin 1"
  by (simp add: slider_frameVelocity_def slider_moving_def slider_mount_def slider_momentum_def
      smoothPosition_def smoothing_def slider_currentVelocity_def deltaTime_def totalWidth_default)

lemma replicate5: "replicate 5 x = [x, x, x, x, x]"
  by (simp add: numeral_eq_Suc)

lemma drag_moving_average: "drag_frameAverage 1016 drag_moving = Fin 1"
  unfolding drag_frameAverage_def drag_moving_velocity
  by (simp add: drag_moving_def drag_mount_def replicate5 pushVelocity_def averageVelocity_def)

lemma slider_moving_average: "slider_frameAverage 1016 slider_moving = Fin 1"
  unfolding slider_frameAverage_def slider_moving_velocity
  by (simp add: slider_moving_def slider_mount_def replicate5 pushVelocity_def averageVelocity_def)

lemma drag_moving_peak: "drag_framePeak 1016 drag_moving = Fin 1"
  unfolding drag_framePeak_def drag_moving_average
  by (simp add: drag_moving_def drag_mount_def raisePeak_def jgt_def)

lemma slider_moving_peak: "slider_framePeak 1016 slider_moving = Fin 1"
  unfolding slider_framePeak_def slider_moving_average
  by (simp add: slider_moving_def slider_mount_def raisePeak_def jgt_def)

text \<open>
  Claim C6 (distortion decay policy), evaluated on the code. The decay rate of a frame is
  never above \<open>distortionDecay = 0.95\<close>. In a frame of a fast, steady movement (a drag or a
  scroll in progress, average velocity \<open>1 \<ge> 0.2\<close>, not decelerating) the rate is
  \<open>0.95 * 0.98 = 0.931\<close> in \<open>ThreeSliderDraggable\<close> and \<open>0.95 * 0.9 = 0.855\<close> in \<open>ThreeSlider\<close>, both
  smaller than \<open>0.95\<close>: the target distortion falls from \<open>1\<close> to \<open>0.931\<close> and \<open>0.855\<close>, where the
  rate of every other case would leave \<open>0.95\<close>.
\<close>

theorem decay_rate_moving_fast:
  "(\<forall>dec avg dragging. drag_decayRate dec avg dragging \<le> distortionDecay)
   \<and> (\<forall>dec avg. slider_decayRate dec avg \<le> distortionDecay)
   \<and> isDragging drag_moving \<and> isScrolling slider_moving
   \<and> jgt (drag_frameAverage 1016 drag_moving) (Fin 0.2)
   \<and> jgt (slider_frameAverage 1016 slider_moving) (Fin 0.2)
   \<and> isDecelerating (drag_frameAverage 1016 drag_moving) (drag_framePeak 1016 drag_moving) = False
   \<and> isDecelerating (slider_frameAverage 1016 slider_moving) (slider_framePeak 1016 slider_moving) = False
   \<and> drag_frameDecay 1016 drag_moving = 0.931
   \<and> slider_frameDecay 1016 slider_moving = 0.855
   \<and> distortionDecay = 0.95
   \<and> targetDistortionFactor (drag_animate default_config 1016 drag_moving) = Fin 0.931
   \<and> targetDistortionFactor (slider_animate 1016 slider_moving) = Fin 0.855"
proof -
  have d: "drag_frameDecay 1016 drag_moving = 0.931"
    unfolding drag_frameDecay_def drag_moving_average drag_moving_peak
    by (simp add: drag_decayRate_def isDecelerating_def velocityRatio_def jgt_def
        drag_moving_def distortionDecay_def)
  have s: "slider_frameDecay 1016 slider_moving = 0.855"
    unfolding slider_frameDecay_def slider_moving_average slider_moving_peak
    by (simp add: slider_decayRate_def isDecelerating_def velocityRatio_def jgt_def
        distortionDecay_def)
  have td: "targetDistortionFactor (drag_animate default_config 1016 drag_moving) = Fin 0.931"
    unfolding drag_animate_fields d drag_moving_velocity
    by (simp add: drag_raiseDistortion_def movementDistortion_def drag_moving_def
        distortionSensitivity_def)
  have ts: "targetDistortionFactor (slider_animate 1016 slider_moving) = Fin 0.855"
    unfolding slider_animate_fields s slider_moving_velocity
    by (simp add: slider_raiseDistortion_def movementDistortion_def slider_moving_def
        distortionSensitivity_def jgt_def)
  have b1: "\<forall>dec avg dragging. drag_decayRate dec avg dragging \<le> distortionDecay"
    and b2: "\<forall>dec avg. slider_decayRate dec avg \<le> distortionDecay"
    and dd: "distortionDecay = 0.95"
    by (simp_all add: drag_decayRate_def slider_decayRate_def distortionDecay_def)
  have f1: "isDragging drag_moving" and f2: "isScrolling slider_moving"
    by (simp_all add: drag_moving_def slider_moving_def)
  have a1: "jgt (drag_frameAverage 1016 drag_moving) (Fin 0.2)"
    and a2: "jgt (slider_frameAverage 1016 slider_moving) (Fin 0.2)"
    unfolding drag_moving_average slider_moving_average by (simp_all add: jgt_def)
  have n1: "isDecelerating (drag_frameAverage 1016 drag_moving) (drag_framePeak 1016 drag_moving) = False"
    and n2: "isDecelerating (slider_frameAverage 1016 slider_moving) (slider_framePeak 1016 slider_moving) = False"
    unfolding drag_moving_average slider_moving_average drag_moving_peak slider_moving_peak
    by (simp_all add: isDecelerating_def velocityRatio_def jgt_def)
  show ?thesis
    using b1 b2 dd f1 f2 a1 a2 n1 n2 d s td ts by blast
qed


section \<open>The deceleration guard\<close>

lemma is_fin_iff: "is_fin x = (\<exists>a. x = Fin a)"
  by (cases x) simp_all

lemma foldl_jadd_fin:
  "list_all is_fin xs \<Longrightarrow> is_fin acc \<Longrightarrow> is_fin (foldl jadd acc xs)"
  by (induction xs arbitrary: acc) (auto simp: is_fin_iff)

lemma pushVelocity_fin:
  "list_all is_fin h \<Longrightarrow> is_fin v \<Longrightarrow> list_all is_fin (pushVelocity h v)"
  by (cases h) (simp_all add: pushVelocity_def)

lemma pushVelocity_nonempty: "h \<noteq> [] \<Longrightarrow> pushVelocity h v \<noteq> []"
  by (cases h) (simp_all add: pushVelocity_def)

lemma averageVelocity_fin:
  assumes "list_all is_fin h" and "h \<noteq> []"
  shows "is_fin (averageVelocity h)"
proof -
  obtain a where "foldl jadd (Fin 0) h = Fin a"
    using foldl_jadd_fin [OF assms(1), of "Fin 0"] by (auto simp: is_fin_iff)
  then show ?thesis using assms(2) by (simp add: averageVelocity_def)
qed

lemma raisePeak_fin: "is_fin a \<Longrightarrow> is_fin p \<Longrightarrow> is_fin (raisePeak a p)"
  by (simp add: raisePeak_def)

lemma velocityRatio_Fin:
  "velocityRatio (Fin a) (Fin k) = Fin (if 0.001 < k then a / k else 0)"
  by (simp add: velocityRatio_def jgt_def)

lemma drag_frameVelocity_fin:
  "deltaTime (lastTime s) time \<noteq> 0 \<Longrightarrow> is_fin (drag_frameVelocity time s)"
  by (simp add: drag_frameVelocity_def drag_currentVelocity_def Let_def split: prod.split)

lemma slider_frameVelocity_fin:
  "deltaTime (lastTime s) time \<noteq> 0 \<Longrightarrow> is_fin (slider_frameVelocity time s)"
  by (simp add: slider_frameVelocity_def slider_currentVelocity_def Let_def split: prod.split)

lemma drag_frameRatio_fin:
  assumes "deltaTime (lastTime s) time \<noteq> 0" and "list_all is_fin (velocityHistory s)"
    and "velocityHistory s \<noteq> []" and "is_fin (peakVelocity s)"
  shows "is_fin (drag_frameRatio time s)"
proof -
  have "is_fin (drag_frameAverage time s)"
    unfolding drag_frameAverage_def
    by (intro averageVelocity_fin pushVelocity_fin pushVelocity_nonempty
        drag_frameVelocity_fin assms)
  moreover from this have "is_fin (drag_framePeak time s)"
    unfolding drag_framePeak_def by (intro raisePeak_fin assms)
  ultimately show ?thesis
    by (auto simp: drag_frameRatio_def is_fin_iff velocityRatio_Fin)
qed

lemma slider_frameRatio_fin:
  assumes "deltaTime (lastTime s) time \<noteq> 0" and "list_all is_fin (velocityHistory s)"
    and "velocityHistory s \<noteq> []" and "is_fin (peakVelocity s)"
  shows "is_fin (slider_frameRatio time s)"
proof -
  have "is_fin (slider_frameAverage time s)"
    unfolding slider_frameAverage_def
    by (intro averageVelocity_fin pushVelocity_fin pushVelocity_nonempty
        slider_frameVelocity_fin assms)
  moreover from this have "is_fin (slider_framePeak time s)"
    unfolding slider_framePeak_def by (intro raisePeak_fin assms)
  ultimately show ?thesis
    by (auto simp: slider_frameRatio_def is_fin_iff velocityRatio_Fin)
qed

text \<open>
  Claim C8 (deceleration-classification guard), as amended. When the raised \<open>peakVelocity\<close> is
  not above \<open>0.001\<close> (also when it is \<open>NaN\<close>) the velocity ratio is \<open>0\<close> and no division is
  performed; otherwise it is \<open>avgVelocity / peakVelocity\<close>, a division by a peak above \<open>0.001\<close>.
  For finite \<open>avgVelocity\<close> and \<open>peakVelocity\<close> the ratio is therefore finite, and it is finite in
  every frame that measures \<open>deltaTime \<noteq> 0\<close> from a finite, non-empty velocity history and a
  finite peak. \<open>isDecelerating\<close> is \<open>ratio < 0.7\<close> and \<open>peakVelocity > 0.5\<close>.
\<close>

theorem velocity_ratio_guard:
  "(\<not> jgt peak (Fin 0.001) \<longrightarrow> velocityRatio avg peak = Fin 0)
   \<and> (jgt peak (Fin 0.001) \<longrightarrow> velocityRatio avg peak = jdiv avg peak)
   \<and> (avg = Fin a \<and> peak = Fin k \<longrightarrow>
        velocityRatio avg peak = Fin (if 0.001 < k then a / k else 0))
   \<and> isDecelerating avg peak = (jlt (velocityRatio avg peak) (Fin 0.7) \<and> jgt peak (Fin 0.5))
   \<and> (deltaTime (lastTime s) time \<noteq> 0 \<and> list_all is_fin (velocityHistory s)
        \<and> velocityHistory s \<noteq> [] \<and> is_fin (peakVelocity s) \<longrightarrow>
        is_fin (drag_frameRatio time s))
   \<and> (deltaTime (lastTime t) time \<noteq> 0 \<and> list_all is_fin (velocityHistory t)
        \<and> velocityHistory t \<noteq> [] \<and> is_fin (peakVelocity t) \<longrightarrow>
        is_fin (slider_frameRatio time t))"
  using drag_frameRatio_fin [of s time] slider_frameRatio_fin [of t time]
  by (auto simp: velocityRatio_def isDecelerating_def jgt_def)

theorem velocity_ratio_guard_witness:
  "\<not> jgt (Fin 0.0005) (Fin 0.001) \<and> velocityRatio (Fin 1) (Fin 0.0005) = Fin 0
   \<and> jgt (Fin 2) (Fin 0.001) \<and> velocityRatio (Fin 1) (Fin 2) = Fin 0.5
   \<and> deltaTime (lastTime drag_moving) 1016 \<noteq> 0
   \<and> list_all is_fin (velocityHistory drag_moving)
   \<and> velocityHistory drag_moving \<noteq> [] \<and> is_fin (peakVelocity drag_moving)
   \<and> is_fin (drag_frameRatio 1016 drag_moving)"
proof -
  have g: "\<not> jgt (Fin 0.0005) (Fin 0.001)" "jgt (Fin 2) (Fin 0.001)" by (simp_all add: jgt_def)
  have h: "deltaTime (lastTime drag_moving) 1016 \<noteq> 0" "list_all is_fin (velocityHistory drag_moving)"
    "velocityHistory drag_moving \<noteq> []" "is_fin (peakVelocity drag_moving)"
    by (simp_all add: drag_moving_def drag_mount_def deltaTime_def replicate5)
  show ?thesis
    using g h velocity_ratio_guard [of "Fin 0.0005" "Fin 1" 1 "0.0005" drag_moving 1016]
      velocity_ratio_guard [of "Fin 2" "Fin 1" 1 2 drag_moving 1016]
    by simp
qed

text \<open>
  Claim C8 as stated, for every frame update, fails in a frame that measures
  \<open>deltaTime = 0\<close> (its timestamp equals the previous one) while the position moves: an
  arrow key has moved the target, the velocity is \<open>0.31 / 0 = Infinity\<close>, so are the average
  and the raised peak, and the ratio is \<open>Infinity / Infinity = NaN\<close>.
\<close>

theorem velocity_ratio_nan_counterexample:
  "deltaTime (lastTime slider_after_key) 1000 = 0
   \<and> slider_frameVelocity 1000 slider_after_key = PInf
   \<and> slider_frameAverage 1000 slider_after_key = PInf
   \<and> slider_framePeak 1000 slider_after_key = PInf
   \<and> slider_frameRatio 1000 slider_after_key = NaN
   \<and> deltaTime (lastTime drag_after_key) 1000 = 0
   \<and> drag_frameVelocity 1000 drag_after_key = PInf
   \<and> drag_frameRatio 1000 drag_after_key = NaN"
proof -
  have v: "slider_frameVelocity 1000 slider_after_key = PInf"
    by (simp add: slider_frameVelocity_def slider_after_key_def handleKeyDown_def
        slider_mount_def slider_momentum_def smoothPosition_def smoothing_def
        slider_currentVelocity_def deltaTime_def totalWidth_default slideUnit_default
        inf_of_sign_def)
  have a: "slider_frameAverage 1000 slider_after_key = PInf"
    unfolding slider_frameAverage_def v
    by (simp add: slider_after_key_def handleKeyDown_def slider_mount_def replicate5
        pushVelocity_def averageVelocity_def inf_of_sign_def)
  have p: "slider_framePeak 1000 slider_after_key = PInf"
    unfolding slider_framePeak_def a
    by (simp add: slider_after_key_def handleKeyDown_def slider_mount_def raisePeak_def jgt_def)
  have r: "slider_frameRatio 1000 slider_after_key = NaN"
    unfolding slider_frameRatio_def a p by (simp add: velocityRatio_def jgt_def)
  have dv: "drag_frameVelocity 1000 drag_after_key = PInf"
    by (simp add: drag_frameVelocity_def drag_after_key_def handleKeyDown_def
        drag_mount_def drag_momentum_def smoothPosition_def smoothing_def
        drag_currentVelocity_def deltaTime_def totalWidth_default default_config_def
        inf_of_sign_def)
  have da: "drag_frameAverage 1000 drag_after_key = PInf"
    unfolding drag_frameAverage_def dv
    by (simp add: drag_after_key_def handleKeyDown_def drag_mount_def replicate5
        pushVelocity_def averageVelocity_def inf_of_sign_def)
  have dp: "drag_framePeak 1000 drag_after_key = PInf"
    unfolding drag_framePeak_def da
    by (simp add: drag_after_key_def handleKeyDown_def drag_mount_def raisePeak_def jgt_def)
  have dr: "drag_frameRatio 1000 drag_after_key = NaN"
    unfolding drag_frameRatio_def da dp by (simp add: velocityRatio_def jgt_def)
  have t: "deltaTime (lastTime slider_after_key) 1000 = 0"
    "deltaTime (lastTime drag_after_key) 1000 = 0"
    by (simp_all add: slider_after_key_def drag_after_key_def handleKeyDown_def
        slider_mount_def drag_mount_def deltaTime_def)
  show ?thesis using v a p r dv dr t by blast
qed


section \<open>The rise of the distortion\<close>

lemma drag_frameVelocity_value:
  "deltaTime (lastTime s) time \<noteq> 0 \<Longrightarrow>
   drag_frameVelocity time s =
     Fin (max 0 (\<bar>currentPosition (drag_animate cfg time s) - currentPosition s\<bar>
                 / deltaTime (lastTime s) time))"
  by (simp add: drag_animate_fields drag_frameVelocity_def drag_currentVelocity_def Let_def
      split: prod.split)

lemma slider_frameVelocity_value:
  "deltaTime (lastTime s) time \<noteq> 0 \<Longrightarrow>
   slider_frameVelocity time s =
     Fin (\<bar>currentPosition (slider_animate time s) - currentPosition s\<bar>
            / deltaTime (lastTime s) time)"
  by (simp add: slider_animate_fields slider_frameVelocity_def slider_currentVelocity_def Let_def
      split: prod.split)

lemma raise_Fin:
  "drag_raiseDistortion dragging (Fin x) (Fin t) =
     Fin (if 0.05 < x \<or> dragging then max t (min 1 (x * 0.15)) else t)"
  "slider_raiseDistortion (Fin x) (Fin t) =
     Fin (if 0.05 < x then max t (min 1 (x * 0.15)) else t)"
  by (simp_all add: drag_raiseDistortion_def slider_raiseDistortion_def movementDistortion_def
      distortionSensitivity_def jgt_def)

lemma after_key_simps:
  "targetDistortionFactor drag_after_key = Fin 0.3"
  "velocityHistory drag_after_key = replicate 5 (Fin 0)"
  "peakVelocity drag_after_key = Fin 0"
  "lastTime drag_after_key = 1000"
  "isDragging drag_after_key = False"
  "currentPosition drag_after_key = - 15.5"
  "targetPosition drag_after_key = - 12.4"
  "autoScrollSpeed drag_after_key = 0"
  by (simp_all add: drag_after_key_def handleKeyDown_def drag_mount_def addDistortion_def
      totalWidth_def default_config_def)

lemma drag_after_key_velocity: "drag_frameVelocity 1016 drag_after_key = Fin 19.375"
  by (simp add: drag_frameVelocity_def after_key_simps drag_momentum_def
      smoothPosition_def smoothing_def drag_currentVelocity_def deltaTime_def)

lemma drag_after_key_decay: "drag_frameDecay 1016 drag_after_key = 0.95"
  by (simp add: drag_frameDecay_def drag_decayRate_def after_key_simps distortionDecay_def)

lemma stopping_simps:
  "targetDistortionFactor drag_stopping = Fin 0"
  "velocityHistory drag_stopping = replicate 5 (Fin 10)"
  "peakVelocity drag_stopping = Fin 10"
  "lastTime drag_stopping = 1000"
  "isDragging drag_stopping = False"
  "currentPosition drag_stopping = - 15.5"
  "targetPosition drag_stopping = - 15.499"
  "autoScrollSpeed drag_stopping = 0"
  "targetDistortionFactor slider_stopping = Fin 0"
  "velocityHistory slider_stopping = replicate 5 (Fin 10)"
  "peakVelocity slider_stopping = Fin 10"
  "lastTime slider_stopping = 1000"
  "isScrolling slider_stopping = False"
  "currentPosition slider_stopping = - 15.5"
  "targetPosition slider_stopping = - 15.499"
  "autoScrollSpeed slider_stopping = 0"
  by (simp_all add: drag_stopping_def slider_stopping_def drag_mount_def slider_mount_def
      totalWidth_default)

text \<open>
  Claim C5 (distortion rise rule), as amended. In a frame update the target distortion is
  raised to \<open>max(targetDistortionFactor, min(1, currentVelocity * 0.15))\<close> when \<open>currentVelocity\<close>
  exceeds \<open>0.05\<close> (or, in \<open>ThreeSliderDraggable\<close> only, a drag is active), and is left as it is
  otherwise; the decay rate of the frame is then applied. \<open>currentVelocity\<close> is the velocity of
  this frame alone, \<open>|currentPosition - previous position| / deltaTime\<close>, not the average of the
  velocity history. On finite values the rise never lowers the target.
\<close>

theorem distortion_rise_rule:
  "targetDistortionFactor (drag_animate cfg time s) =
     jmul (if jgt (drag_frameVelocity time s) (Fin 0.05) \<or> isDragging s
           then jmax (targetDistortionFactor s)
                  (jmin (Fin 1) (jmul (drag_frameVelocity time s) (Fin 0.15)))
           else targetDistortionFactor s)
       (Fin (drag_frameDecay time s))
   \<and> targetDistortionFactor (slider_animate time t) =
     jmul (if jgt (slider_frameVelocity time t) (Fin 0.05)
           then jmax (targetDistortionFactor t)
                  (jmin (Fin 1) (jmul (slider_frameVelocity time t) (Fin 0.15)))
           else targetDistortionFactor t)
       (Fin (slider_frameDecay time t))
   \<and> (deltaTime (lastTime s) time \<noteq> 0 \<longrightarrow>
        drag_frameVelocity time s =
          Fin (max 0 (\<bar>currentPosition (drag_animate cfg time s) - currentPosition s\<bar>
                      / deltaTime (lastTime s) time)))
   \<and> (deltaTime (lastTime t) time \<noteq> 0 \<longrightarrow>
        slider_frameVelocity time t =
          Fin (\<bar>currentPosition (slider_animate time t) - currentPosition t\<bar>
                 / deltaTime (lastTime t) time))
   \<and> (drag_raiseDistortion dragging (Fin x) (Fin d) =
          Fin (if 0.05 < x \<or> dragging then max d (min 1 (x * 0.15)) else d)
        \<and> slider_raiseDistortion (Fin x) (Fin d) =
          Fin (if 0.05 < x then max d (min 1 (x * 0.15)) else d)
        \<and> d \<le> (if 0.05 < x \<or> dragging then max d (min 1 (x * 0.15)) else d))"
proof -
  have a: "targetDistortionFactor (drag_animate cfg time s) =
     jmul (if jgt (drag_frameVelocity time s) (Fin 0.05) \<or> isDragging s
           then jmax (targetDistortionFactor s)
                  (jmin (Fin 1) (jmul (drag_frameVelocity time s) (Fin 0.15)))
           else targetDistortionFactor s)
       (Fin (drag_frameDecay time s))"
    by (simp add: drag_animate_fields drag_raiseDistortion_def movementDistortion_def
        distortionSensitivity_def)
  have b: "targetDistortionFactor (slider_animate time t) =
     jmul (if jgt (slider_frameVelocity time t) (Fin 0.05)
           then jmax (targetDistortionFactor t)
                  (jmin (Fin 1) (jmul (slider_frameVelocity time t) (Fin 0.15)))
           else targetDistortionFactor t)
       (Fin (slider_frameDecay time t))"
    by (simp add: slider_animate_fields slider_raiseDistortion_def movementDistortion_def
        distortionSensitivity_def)
  have c: "d \<le> (if 0.05 < x \<or> dragging then max d (min 1 (x * 0.15)) else d)"
    by simp
  show ?thesis
    using a b c drag_frameVelocity_value [of s time cfg] slider_frameVelocity_value [of t time]
      raise_Fin(1) [of dragging x d] raise_Fin(2) [of x d]
    by blast
qed

theorem distortion_rise_rule_witness:
  "deltaTime (lastTime drag_after_key) 1016 \<noteq> 0
   \<and> targetDistortionFactor drag_after_key = Fin 0.3
   \<and> drag_frameVelocity 1016 drag_after_key = Fin 19.375
   \<and> drag_frameVelocity 1016 drag_after_key =
       Fin (max 0 (\<bar>currentPosition (drag_animate default_config 1016 drag_after_key)
                     - currentPosition drag_after_key\<bar>
                   / deltaTime (lastTime drag_after_key) 1016))
   \<and> targetDistortionFactor (drag_animate default_config 1016 drag_after_key) = Fin 0.95"
proof -
  have dt: "deltaTime (lastTime drag_after_key) 1016 \<noteq> 0"
    by (simp add: after_key_simps deltaTime_def)
  have "targetDistortionFactor (drag_animate default_config 1016 drag_after_key) = Fin 0.95"
    using distortion_rise_rule [of default_config 1016 drag_after_key]
    by (simp add: drag_after_key_velocity drag_after_key_decay after_key_simps jgt_def)
  then show ?thesis
    using dt distortion_rise_rule [of default_config 1016 drag_after_key]
    by (simp add: drag_after_key_velocity after_key_simps)
qed

text \<open>
  Claim C5 as stated, with the average of the velocity history in the test and in the
  scale, fails when the slider has just stopped: the average is still \<open>8.00125 > 0.05\<close>, so
  the rule of the claim raises the target to \<open>1\<close>, but the velocity of the frame is
  \<open>0.00625\<close> and the code leaves the target at \<open>0\<close>.
\<close>

theorem distortion_rise_average_counterexample:
  "slider_frameVelocity 1016 slider_stopping = Fin 0.00625
   \<and> slider_frameAverage 1016 slider_stopping = Fin 8.00125
   \<and> jgt (slider_frameAverage 1016 slider_stopping) (Fin 0.05)
   \<and> spec_raiseDistortion False (slider_frameAverage 1016 slider_stopping)
        (targetDistortionFactor slider_stopping) = Fin 1
   \<and> slider_raiseDistortion (slider_frameVelocity 1016 slider_stopping)
        (targetDistortionFactor slider_stopping) = Fin 0
   \<and> targetDistortionFactor (slider_animate 1016 slider_stopping) = Fin 0
   \<and> drag_frameVelocity 1016 drag_stopping = Fin 0.00625
   \<and> drag_frameAverage 1016 drag_stopping = Fin 8.00125
   \<and> spec_raiseDistortion (isDragging drag_stopping) (drag_frameAverage 1016 drag_stopping)
        (targetDistortionFactor drag_stopping) = Fin 1
   \<and> targetDistortionFactor (drag_animate default_config 1016 drag_stopping) = Fin 0"
proof -
  have v: "slider_frameVelocity 1016 slider_stopping = Fin 0.00625"
    by (simp add: slider_frameVelocity_def stopping_simps slider_momentum_def
        smoothPosition_def smoothing_def slider_currentVelocity_def deltaTime_def)
  have a: "slider_frameAverage 1016 slider_stopping = Fin 8.00125"
    unfolding slider_frameAverage_def v
    by (simp add: stopping_simps replicate5 pushVelocity_def averageVelocity_def)
  have g: "jgt (slider_frameAverage 1016 slider_stopping) (Fin 0.05)"
    unfolding a by (simp add: jgt_def)
  have sp: "spec_raiseDistortion False (slider_frameAverage 1016 slider_stopping)
        (targetDistortionFactor slider_stopping) = Fin 1"
    unfolding a by (simp add: spec_raiseDistortion_def stopping_simps jgt_def)
  have c: "slider_raiseDistortion (slider_frameVelocity 1016 slider_stopping)
        (targetDistortionFactor slider_stopping) = Fin 0"
    unfolding v by (simp add: stopping_simps raise_Fin)
  have r: "targetDistortionFactor (slider_animate 1016 slider_stopping) = Fin 0"
    unfolding slider_animate_fields c by simp
  have dv: "drag_frameVelocity 1016 drag_stopping = Fin 0.00625"
    by (simp add: drag_frameVelocity_def stopping_simps drag_momentum_def
        smoothPosition_def smoothing_def drag_currentVelocity_def deltaTime_def)
  have da: "drag_frameAverage 1016 drag_stopping = Fin 8.00125"
    unfolding drag_frameAverage_def dv
    by (simp add: stopping_simps replicate5 pushVelocity_def averageVelocity_def)
  have dsp: "spec_raiseDistortion (isDragging drag_stopping) (drag_frameAverage 1016 drag_stopping)
        (targetDistortionFactor drag_stopping) = Fin 1"
    unfolding da by (simp add: spec_raiseDistortion_def stopping_simps jgt_def)
  have dc: "drag_raiseDistortion (isDragging drag_stopping) (drag_frameVelocity 1016 drag_stopping)
        (targetDistortionFactor drag_stopping) = Fin 0"
    unfolding dv by (simp add: stopping_simps raise_Fin)
  have dr: "targetDistortionFactor (drag_animate default_config 1016 drag_stopping) = Fin 0"
    unfolding drag_animate_fields dc by simp
  show ?thesis using v a g sp c r dv da dsp dr by blast
qed


section \<open>The momentum step\<close>









section \<open>A frame that measures no time\<close>

lemma zero_delta_velocity:
  "drag_currentVelocity c c 0 = NaN" "slider_currentVelocity c c 0 = NaN"
  by (simp_all add: drag_currentVelocity_def slider_currentVelocity_def)

lemma drag_rest_frame:
  assumes "deltaTime (lastTime s) time = 0" and "targetPosition s = currentPosition s"
    and "\<not> isDragging s" and "\<bar>autoScrollSpeed s\<bar> \<le> 0.001"
    and "targetDistortionFactor s = Fin 0" and "currentDistortionFactor s = Fin 0"
  shows "currentPosition (drag_animate cfg time s) = currentPosition s"
    and "targetDistortionFactor (drag_animate cfg time s) = Fin 0"
    and "currentDistortionFactor (drag_animate cfg time s) = Fin 0"
proof -
  have m: "drag_momentum (isDragging s) (targetPosition s) (autoScrollSpeed s)
      = (currentPosition s, 0)"
    using assms(2,3,4) by (simp add: drag_momentum_def)
  show p: "currentPosition (drag_animate cfg time s) = currentPosition s"
    by (simp add: drag_animate_fields m smoothPosition_def)
  have v: "drag_frameVelocity time s = NaN"
    by (simp add: drag_frameVelocity_def m smoothPosition_def assms(1) zero_delta_velocity)
  show t: "targetDistortionFactor (drag_animate cfg time s) = Fin 0"
    using assms(3,5) by (simp add: drag_animate_fields v drag_raiseDistortion_def jgt_def)
  show "currentDistortionFactor (drag_animate cfg time s) = Fin 0"
    unfolding drag_animate_fields(9) t using assms(6)
    by (simp add: smoothDistortion_def jsub_def)
qed

lemma slider_rest_frame:
  assumes "deltaTime (lastTime s) time = 0" and "targetPosition s = currentPosition s"
    and "isScrolling s \<longrightarrow> autoScrollSpeed s = 0"
    and "targetDistortionFactor s = Fin 0" and "currentDistortionFactor s = Fin 0"
  shows "currentPosition (slider_animate time s) = currentPosition s"
    and "targetDistortionFactor (slider_animate time s) = Fin 0"
    and "currentDistortionFactor (slider_animate time s) = Fin 0"
proof -
  have m: "fst (slider_momentum (isScrolling s) (targetPosition s) (autoScrollSpeed s))
      = currentPosition s"
    using assms(2,3) by (simp add: slider_momentum_def)
  show p: "currentPosition (slider_animate time s) = currentPosition s"
    by (simp add: slider_animate_fields m smoothPosition_def)
  have v: "slider_frameVelocity time s = NaN"
    using m
    by (auto simp: slider_frameVelocity_def smoothPosition_def assms(1) zero_delta_velocity
        split: prod.split)
  show t: "targetDistortionFactor (slider_animate time s) = Fin 0"
    using assms(4) by (simp add: slider_animate_fields v slider_raiseDistortion_def jgt_def)
  show "currentDistortionFactor (slider_animate time s) = Fin 0"
    unfolding slider_animate_fields(9) t using assms(5)
    by (simp add: smoothDistortion_def jsub_def)
qed

lemma slider_after_key_simps:
  "targetDistortionFactor slider_after_key = Fin 0.3"
  "currentDistortionFactor slider_after_key = Fin 0"
  "velocityHistory slider_after_key = replicate 5 (Fin 0)"
  "peakVelocity slider_after_key = Fin 0"
  "lastTime slider_after_key = 1000"
  "isScrolling slider_after_key = False"
  "currentPosition slider_after_key = - 15.5"
  "targetPosition slider_after_key = - 12.4"
  "autoScrollSpeed slider_after_key = 0"
  by (simp_all add: slider_after_key_def handleKeyDown_def slider_mount_def addDistortion_def
      totalWidth_default slideUnit_default)

text \<open>
  Claim C2 (a frame update with \<open>deltaTime = 0\<close>), as amended. The smoothing of a frame does
  not depend on \<open>deltaTime\<close>: in every frame \<open>currentPosition\<close> moves by
  \<open>(targetPosition - currentPosition) * 0.1\<close>, with the \<open>targetPosition\<close> that the momentum step
  leaves. A frame with \<open>deltaTime = 0\<close> leaves \<open>currentPosition\<close> and \<open>currentDistortionFactor\<close>
  unchanged when the engine is at rest: \<open>targetPosition = currentPosition\<close>, no momentum is
  pending (no drag and \<open>|autoScrollSpeed| \<le> 0.001\<close> in \<open>ThreeSliderDraggable\<close>; not scrolling or
  zero speed in \<open>ThreeSlider\<close>) and both distortion factors are \<open>0\<close>. The first frame after
  mounting is such a frame.
\<close>

theorem zero_delta_frame:
  "currentPosition (drag_animate cfg time s) =
     currentPosition s + (targetPosition (drag_animate cfg time s) - currentPosition s) * 0.1
   \<and> currentPosition (slider_animate time t) =
     currentPosition t + (targetPosition (slider_animate time t) - currentPosition t) * 0.1
   \<and> (deltaTime (lastTime s) time = 0 \<and> targetPosition s = currentPosition s
        \<and> \<not> isDragging s \<and> \<bar>autoScrollSpeed s\<bar> \<le> 0.001
        \<and> targetDistortionFactor s = Fin 0 \<and> currentDistortionFactor s = Fin 0 \<longrightarrow>
        currentPosition (drag_animate cfg time s) = currentPosition s
        \<and> currentDistortionFactor (drag_animate cfg time s) = currentDistortionFactor s)
   \<and> (deltaTime (lastTime t) time = 0 \<and> targetPosition t = currentPosition t
        \<and> (isScrolling t \<longrightarrow> autoScrollSpeed t = 0)
        \<and> targetDistortionFactor t = Fin 0 \<and> currentDistortionFactor t = Fin 0 \<longrightarrow>
        currentPosition (slider_animate time t) = currentPosition t
        \<and> currentDistortionFactor (slider_animate time t) = currentDistortionFactor t)"
proof -
  have a: "currentPosition (drag_animate cfg time s) =
     currentPosition s + (targetPosition (drag_animate cfg time s) - currentPosition s) * 0.1"
    and b: "currentPosition (slider_animate time t) =
     currentPosition t + (targetPosition (slider_animate time t) - currentPosition t) * 0.1"
    by (simp_all add: drag_animate_fields slider_animate_fields smoothPosition_def smoothing_def)
  show ?thesis
    using a b drag_rest_frame(1,3) [of s time cfg] slider_rest_frame(1,3) [of t time]
    by metis
qed

theorem zero_delta_frame_witness:
  "deltaTime (lastTime (drag_mount default_config centre_vertex 1000)) 1000 = 0
   \<and> targetPosition (drag_mount default_config centre_vertex 1000)
       = currentPosition (drag_mount default_config centre_vertex 1000)
   \<and> \<not> isDragging (drag_mount default_config centre_vertex 1000)
   \<and> \<bar>autoScrollSpeed (drag_mount default_config centre_vertex 1000)\<bar> \<le> 0.001
   \<and> targetDistortionFactor (drag_mount default_config centre_vertex 1000) = Fin 0
   \<and> currentDistortionFactor (drag_mount default_config centre_vertex 1000) = Fin 0
   \<and> currentPosition (drag_animate default_config 1000 (drag_mount default_config centre_vertex 1000))
       = - 15.5
   \<and> currentDistortionFactor
         (drag_animate default_config 1000 (drag_mount default_config centre_vertex 1000)) = Fin 0"
proof -
  let ?s = "drag_mount default_config centre_vertex 1000"
  have h: "deltaTime (lastTime ?s) 1000 = 0" "targetPosition ?s = currentPosition ?s"
    "\<not> isDragging ?s" "\<bar>autoScrollSpeed ?s\<bar> \<le> 0.001"
    "targetDistortionFactor ?s = Fin 0" "currentDistortionFactor ?s = Fin 0"
    "currentPosition ?s = - 15.5"
    by (simp_all add: drag_mount_def deltaTime_def totalWidth_default)
  from zero_delta_frame [of default_config 1000 ?s] h(1-6)
  have "currentPosition (drag_animate default_config 1000 ?s) = currentPosition ?s
      \<and> currentDistortionFactor (drag_animate default_config 1000 ?s)
          = currentDistortionFactor ?s"
    by blast
  then show ?thesis
    using h by metis
qed

text \<open>
  Claim C2 as stated, for every engine state, fails when the target differs from the
  position: after an arrow key, a frame with \<open>deltaTime = 0\<close> moves \<open>currentPosition\<close> from
  \<open>-15.5\<close> to \<open>-15.19\<close> and \<open>currentDistortionFactor\<close> from \<open>0\<close> to \<open>0.064125\<close> (\<open>ThreeSlider\<close>) or
  \<open>0.07125\<close> (\<open>ThreeSliderDraggable\<close>), and the velocity of the frame is \<open>0.31 / 0 = Infinity\<close>.
\<close>

theorem zero_delta_frame_counterexample:
  "deltaTime (lastTime slider_after_key) 1000 = 0
   \<and> currentPosition slider_after_key = - 15.5
   \<and> currentPosition (slider_animate 1000 slider_after_key) = - 15.19
   \<and> currentDistortionFactor slider_after_key = Fin 0
   \<and> currentDistortionFactor (slider_animate 1000 slider_after_key) = Fin 0.064125
   \<and> slider_frameVelocity 1000 slider_after_key = PInf
   \<and> deltaTime (lastTime drag_after_key) 1000 = 0
   \<and> currentPosition drag_after_key = - 15.5
   \<and> currentPosition (drag_animate default_config 1000 drag_after_key) = - 15.19
   \<and> currentDistortionFactor (drag_animate default_config 1000 drag_after_key) = Fin 0.07125
   \<and> drag_frameVelocity 1000 drag_after_key = PInf"
proof -
  have dt: "deltaTime (lastTime slider_after_key) 1000 = 0"
    "deltaTime (lastTime drag_after_key) 1000 = 0"
    by (simp_all add: slider_after_key_simps after_key_simps deltaTime_def)
  have p: "currentPosition (slider_animate 1000 slider_after_key) = - 15.19"
    "currentPosition (drag_animate default_config 1000 drag_after_key) = - 15.19"
    by (simp_all add: slider_animate_fields drag_animate_fields slider_after_key_simps
        after_key_simps slider_momentum_def drag_momentum_def smoothPosition_def smoothing_def)
  have v: "slider_frameVelocity 1000 slider_after_key = PInf"
    by (simp add: slider_frameVelocity_def slider_after_key_simps slider_momentum_def
        smoothPosition_def smoothing_def slider_currentVelocity_def deltaTime_def inf_of_sign_def)
  have dv: "drag_frameVelocity 1000 drag_after_key = PInf"
    by (simp add: drag_frameVelocity_def after_key_simps drag_momentum_def
        smoothPosition_def smoothing_def drag_currentVelocity_def deltaTime_def inf_of_sign_def)
  have a: "slider_frameAverage 1000 slider_after_key = PInf"
    unfolding slider_frameAverage_def v
    by (simp add: slider_after_key_simps replicate5 pushVelocity_def averageVelocity_def
        inf_of_sign_def)
  have da: "drag_frameAverage 1000 drag_after_key = PInf"
    unfolding drag_frameAverage_def dv
    by (simp add: after_key_simps replicate5 pushVelocity_def averageVelocity_def inf_of_sign_def)
  have r: "slider_frameDecay 1000 slider_after_key = 0.855"
    unfolding slider_frameDecay_def slider_framePeak_def a
    by (simp add: slider_after_key_simps raisePeak_def jgt_def isDecelerating_def
        velocityRatio_def slider_decayRate_def distortionDecay_def)
  have dr: "drag_frameDecay 1000 drag_after_key = 0.95"
    unfolding drag_frameDecay_def drag_framePeak_def da
    by (simp add: after_key_simps drag_decayRate_def distortionDecay_def)
  have t: "targetDistortionFactor (slider_animate 1000 slider_after_key) = Fin 0.855"
    unfolding slider_animate_fields v r
    by (simp add: slider_after_key_simps slider_raiseDistortion_def movementDistortion_def
        jgt_def distortionSensitivity_def inf_of_sign_def)
  have td: "targetDistortionFactor (drag_animate default_config 1000 drag_after_key) = Fin 0.95"
    unfolding drag_animate_fields dv dr
    by (simp add: after_key_simps drag_raiseDistortion_def movementDistortion_def
        jgt_def distortionSensitivity_def inf_of_sign_def)
  have c: "currentDistortionFactor (slider_animate 1000 slider_after_key) = Fin 0.064125"
    unfolding slider_animate_fields(9) t
    by (simp add: slider_after_key_simps smoothDistortion_def jsub_def distortionSmoothing_def)
  have cd: "currentDistortionFactor (drag_animate default_config 1000 drag_after_key) = Fin 0.07125"
    unfolding drag_animate_fields(9) td
    by (simp add: drag_after_key_def handleKeyDown_def drag_mount_def smoothDistortion_def
        jsub_def distortionSmoothing_def)
  show ?thesis
    using dt p v dv c cd by (simp add: slider_after_key_simps after_key_simps)
qed


section \<open>The distortion factors along a run\<close>

lemma in_unit_Fin [simp]: "in_unit (Fin a) = (0 \<le> a \<and> a \<le> 1)"
  by (simp add: in_unit_def)

lemma in_unitE: "in_unit x \<Longrightarrow> (\<And>a. x = Fin a \<Longrightarrow> 0 \<le> a \<Longrightarrow> a \<le> 1 \<Longrightarrow> P) \<Longrightarrow> P"
  by (cases x) (simp_all add: in_unit_def)

lemma jle_Fin [simp]: "jle (Fin a) (Fin b) = (a \<le> b)"
  by (simp add: jle_def)

lemma addDistortion_unit:
  assumes "in_unit x" and "0 \<le> k"
  shows "in_unit (addDistortion x k)"
  using assms by (auto elim!: in_unitE simp: addDistortion_def)

lemma decay_unit:
  assumes "in_unit x" and "0 \<le> r" and "r \<le> 1"
  shows "in_unit (jmul x (Fin r))"
proof -
  from assms(1) obtain a where a: "x = Fin a" "0 \<le> a" "a \<le> 1" by (rule in_unitE)
  have "a * r \<le> 1 * 1" using a assms by (intro mult_mono) simp_all
  then show ?thesis using a assms by simp
qed

lemma decayRate_range:
  "0 \<le> drag_decayRate d a g" "drag_decayRate d a g \<le> 1"
  "0 \<le> slider_decayRate d a" "slider_decayRate d a \<le> 1"
  by (simp_all add: drag_decayRate_def slider_decayRate_def distortionDecay_def)

lemma raise_unit:
  assumes "in_unit x" and "0 \<le> v"
  shows "in_unit (drag_raiseDistortion g (Fin v) x)" and "in_unit (slider_raiseDistortion (Fin v) x)"
  using assms by (auto elim!: in_unitE simp: raise_Fin)

lemma smooth_unit:
  assumes "in_unit c" and "in_unit t"
  shows "in_unit (smoothDistortion c t)" and "jle (smoothDistortion c t) c \<or> jle (smoothDistortion c t) t"
proof -
  from assms obtain a b where ab: "c = Fin a" "0 \<le> a" "a \<le> 1" "t = Fin b" "0 \<le> b" "b \<le> 1"
    by (auto elim!: in_unitE)
  have e: "smoothDistortion (Fin a) (Fin b) = Fin (a + (b - a) * (3 / 40))"
    by (simp add: smoothDistortion_def jsub_def distortionSmoothing_def)
  have "0 \<le> a + (b - a) * (3 / 40)" "a + (b - a) * (3 / 40) \<le> 1"
    using ab(2,3,5,6) by argo+
  then show "in_unit (smoothDistortion c t)" unfolding ab e by simp
  have "a + (b - a) * (3 / 40) \<le> a \<or> a + (b - a) * (3 / 40) \<le> b"
    by argo
  then show "jle (smoothDistortion c t) c \<or> jle (smoothDistortion c t) t"
    unfolding ab e by simp
qed

lemma drag_velocity_pos:
  assumes "0 < deltaTime (lastTime s) time"
  shows "\<exists>v. drag_frameVelocity time s = Fin v \<and> 0 \<le> v"
  using assms
  by (simp add: drag_frameVelocity_def drag_currentVelocity_def Let_def split: prod.split)

lemma slider_velocity_pos:
  assumes "0 < deltaTime (lastTime s) time"
  shows "\<exists>v. slider_frameVelocity time s = Fin v \<and> 0 \<le> v"
  using assms
  by (simp add: slider_frameVelocity_def slider_currentVelocity_def Let_def split: prod.split)

lemma drag_frame_unit:
  assumes "in_unit (targetDistortionFactor s)" and "in_unit (currentDistortionFactor s)"
    and "0 < deltaTime (lastTime s) time"
  shows "in_unit (targetDistortionFactor (drag_animate cfg time s))"
    and "in_unit (currentDistortionFactor (drag_animate cfg time s))"
    and "jle (currentDistortionFactor (drag_animate cfg time s)) (currentDistortionFactor s)
       \<or> jle (currentDistortionFactor (drag_animate cfg time s))
            (targetDistortionFactor (drag_animate cfg time s))"
proof -
  obtain v where v: "drag_frameVelocity time s = Fin v" "0 \<le> v"
    using drag_velocity_pos [OF assms(3)] by blast
  show t: "in_unit (targetDistortionFactor (drag_animate cfg time s))"
    unfolding drag_animate_fields v drag_frameDecay_def
    by (intro decay_unit raise_unit assms v decayRate_range)
  show "in_unit (currentDistortionFactor (drag_animate cfg time s))"
    unfolding drag_animate_fields(9) by (intro smooth_unit assms t)
  show "jle (currentDistortionFactor (drag_animate cfg time s)) (currentDistortionFactor s)
       \<or> jle (currentDistortionFactor (drag_animate cfg time s))
            (targetDistortionFactor (drag_animate cfg time s))"
    unfolding drag_animate_fields(9) by (intro smooth_unit assms t)
qed

lemma slider_frame_unit:
  assumes "in_unit (targetDistortionFactor s)" and "in_unit (currentDistortionFactor s)"
    and "0 < deltaTime (lastTime s) time"
  shows "in_unit (targetDistortionFactor (slider_animate time s))"
    and "in_unit (currentDistortionFactor (slider_animate time s))"
    and "jle (currentDistortionFactor (slider_animate time s)) (currentDistortionFactor s)
       \<or> jle (currentDistortionFactor (slider_animate time s))
            (targetDistortionFactor (slider_animate time s))"
proof -
  obtain v where v: "slider_frameVelocity time s = Fin v" "0 \<le> v"
    using slider_velocity_pos [OF assms(3)] by blast
  show t: "in_unit (targetDistortionFactor (slider_animate time s))"
    unfolding slider_animate_fields v slider_frameDecay_def
    by (intro decay_unit raise_unit assms v decayRate_range)
  show "in_unit (currentDistortionFactor (slider_animate time s))"
    unfolding slider_animate_fields(9) by (intro smooth_unit assms t)
  show "jle (currentDistortionFactor (slider_animate time s)) (currentDistortionFactor s)
       \<or> jle (currentDistortionFactor (slider_animate time s))
            (targetDistortionFactor (slider_animate time s))"
    unfolding slider_animate_fields(9) by (intro smooth_unit assms t)
qed

lemma handleKeyDown_unit:
  assumes "in_unit (targetDistortionFactor s)"
  shows "in_unit (targetDistortionFactor (handleKeyDown u k s))"
    and "currentDistortionFactor (handleKeyDown u k s) = currentDistortionFactor s"
  using assms by (cases k; simp add: handleKeyDown_def addDistortion_unit)+

lemma drag_step_unit:
  assumes "in_unit (targetDistortionFactor s)" and "in_unit (currentDistortionFactor s)"
    and "case e of DragFrame time \<Rightarrow> 0 < deltaTime (lastTime s) time | _ \<Rightarrow> True"
  shows "in_unit (targetDistortionFactor (drag_step cfg s e))"
    and "in_unit (currentDistortionFactor (drag_step cfg s e))"
    and "jle (currentDistortionFactor (drag_step cfg s e)) (currentDistortionFactor s)
       \<or> jle (currentDistortionFactor (drag_step cfg s e)) (targetDistortionFactor (drag_step cfg s e))"
proof -
  have c: "jle (currentDistortionFactor s) (currentDistortionFactor s)"
    using assms(2) by (auto elim: in_unitE)
  have "in_unit (targetDistortionFactor (drag_step cfg s e))
    \<and> in_unit (currentDistortionFactor (drag_step cfg s e))
    \<and> (jle (currentDistortionFactor (drag_step cfg s e)) (currentDistortionFactor s)
       \<or> jle (currentDistortionFactor (drag_step cfg s e)) (targetDistortionFactor (drag_step cfg s e)))"
  proof (cases e)
    case (MouseDown i x)
    then show ?thesis using assms c by (simp add: handleMouseDown_def)
  next
    case (MouseMove x)
    then show ?thesis using assms c
      by (simp add: handleMouseMove_def Let_def addDistortion_unit)
  next
    case MouseUpOrLeave
    then show ?thesis using assms c
      by (simp add: handleMouseUpOrLeave_def Let_def addDistortion_unit distortionSensitivity_def)
  next
    case (DragKeyDown k)
    then show ?thesis using assms c by (simp add: handleKeyDown_unit)
  next
    case (DragFrame time)
    then show ?thesis using assms drag_frame_unit [of s time cfg] by simp
  qed
  then show "in_unit (targetDistortionFactor (drag_step cfg s e))"
    and "in_unit (currentDistortionFactor (drag_step cfg s e))"
    and "jle (currentDistortionFactor (drag_step cfg s e)) (currentDistortionFactor s)
       \<or> jle (currentDistortionFactor (drag_step cfg s e)) (targetDistortionFactor (drag_step cfg s e))"
    by blast+
qed

lemma slider_step_unit:
  assumes "in_unit (targetDistortionFactor s)" and "in_unit (currentDistortionFactor s)"
    and "case e of Frame time \<Rightarrow> 0 < deltaTime (lastTime s) time | _ \<Rightarrow> True"
  shows "in_unit (targetDistortionFactor (slider_step s e))"
    and "in_unit (currentDistortionFactor (slider_step s e))"
    and "jle (currentDistortionFactor (slider_step s e)) (currentDistortionFactor s)
       \<or> jle (currentDistortionFactor (slider_step s e)) (targetDistortionFactor (slider_step s e))"
proof -
  have c: "jle (currentDistortionFactor s) (currentDistortionFactor s)"
    using assms(2) by (auto elim: in_unitE)
  have "in_unit (targetDistortionFactor (slider_step s e))
    \<and> in_unit (currentDistortionFactor (slider_step s e))
    \<and> (jle (currentDistortionFactor (slider_step s e)) (currentDistortionFactor s)
       \<or> jle (currentDistortionFactor (slider_step s e)) (targetDistortionFactor (slider_step s e)))"
  proof (cases e)
    case (Wheel y)
    then show ?thesis using assms c by (simp add: handleWheel_def Let_def addDistortion_unit)
  next
    case (KeyDown k)
    then show ?thesis using assms c by (simp add: handleKeyDown_unit)
  next
    case (TouchStart x)
    then show ?thesis using assms c by (simp add: handleTouchStart_def)
  next
    case (TouchMove x)
    then show ?thesis using assms c by (simp add: handleTouchMove_def Let_def addDistortion_unit)
  next
    case TouchEnd
    then show ?thesis using assms c
      by (simp add: handleTouchEnd_def Let_def distortionSensitivity_def)
  next
    case ScrollTimeout
    then show ?thesis using assms c by (simp add: scrollTimeout_def)
  next
    case (Frame time)
    then show ?thesis using assms slider_frame_unit [of s time] by simp
  qed
  then show "in_unit (targetDistortionFactor (slider_step s e))"
    and "in_unit (currentDistortionFactor (slider_step s e))"
    and "jle (currentDistortionFactor (slider_step s e)) (currentDistortionFactor s)
       \<or> jle (currentDistortionFactor (slider_step s e)) (targetDistortionFactor (slider_step s e))"
    by blast+
qed

lemma jle_trans: "jle x y \<Longrightarrow> jle y z \<Longrightarrow> jle x z"
  by (cases x; cases y; cases z) (simp_all add: jle_def)

lemma drag_targets_head: "targetDistortionFactor s \<in> set (drag_targets cfg s es)"
  by (cases es) simp_all

lemma slider_targets_head: "targetDistortionFactor s \<in> set (slider_targets s es)"
  by (cases es) simp_all

lemma drag_run_unit:
  assumes "in_unit (targetDistortionFactor s)" and "in_unit (currentDistortionFactor s)"
    and "drag_positive_frames cfg s es" and "jle (currentDistortionFactor s) b"
  shows "in_unit (targetDistortionFactor (drag_run cfg s es))
    \<and> in_unit (currentDistortionFactor (drag_run cfg s es))
    \<and> (jle (currentDistortionFactor (drag_run cfg s es)) b
       \<or> (\<exists>m \<in> set (drag_targets cfg s es). jle (currentDistortionFactor (drag_run cfg s es)) m))"
  using assms
proof (induction es arbitrary: s b)
  case Nil
  then show ?case by (simp add: drag_run_def)
next
  case (Cons e es)
  let ?s1 = "drag_step cfg s e"
  have pf: "case e of DragFrame time \<Rightarrow> 0 < deltaTime (lastTime s) time | _ \<Rightarrow> True"
    and rest: "drag_positive_frames cfg ?s1 es"
    using Cons.prems(3) by simp_all
  note st = drag_step_unit [OF Cons.prems(1,2) pf, of cfg]
  have run: "drag_run cfg s (e # es) = drag_run cfg ?s1 es" by (simp add: drag_run_def)
  from st(3) show ?case
  proof
    assume "jle (currentDistortionFactor ?s1) (currentDistortionFactor s)"
    then have "jle (currentDistortionFactor ?s1) b" using Cons.prems(4) by (rule jle_trans)
    from Cons.IH [OF st(1,2) rest this] show ?thesis unfolding run by auto
  next
    assume a: "jle (currentDistortionFactor ?s1) (targetDistortionFactor ?s1)"
    from Cons.IH [OF st(1,2) rest a] drag_targets_head [of ?s1 cfg es]
    show ?thesis unfolding run by auto
  qed
qed

lemma slider_run_unit:
  assumes "in_unit (targetDistortionFactor s)" and "in_unit (currentDistortionFactor s)"
    and "slider_positive_frames s es" and "jle (currentDistortionFactor s) b"
  shows "in_unit (targetDistortionFactor (slider_run s es))
    \<and> in_unit (currentDistortionFactor (slider_run s es))
    \<and> (jle (currentDistortionFactor (slider_run s es)) b
       \<or> (\<exists>m \<in> set (slider_targets s es). jle (currentDistortionFactor (slider_run s es)) m))"
  using assms
proof (induction es arbitrary: s b)
  case Nil
  then show ?case by (simp add: slider_run_def)
next
  case (Cons e es)
  let ?s1 = "slider_step s e"
  have pf: "case e of Frame time \<Rightarrow> 0 < deltaTime (lastTime s) time | _ \<Rightarrow> True"
    and rest: "slider_positive_frames ?s1 es"
    using Cons.prems(3) by simp_all
  note st = slider_step_unit [OF Cons.prems(1,2) pf]
  have run: "slider_run s (e # es) = slider_run ?s1 es" by (simp add: slider_run_def)
  from st(3) show ?case
  proof
    assume "jle (currentDistortionFactor ?s1) (currentDistortionFactor s)"
    then have "jle (currentDistortionFactor ?s1) b" using Cons.prems(4) by (rule jle_trans)
    from Cons.IH [OF st(1,2) rest this] show ?thesis unfolding run by auto
  next
    assume a: "jle (currentDistortionFactor ?s1) (targetDistortionFactor ?s1)"
    from Cons.IH [OF st(1,2) rest a] slider_targets_head [of ?s1 es]
    show ?thesis unfolding run by auto
  qed
qed


text \<open>
  Claim C3 (distortion factors stay in the unit interval). From an engine whose
  \<open>targetDistortionFactor\<close> and \<open>currentDistortionFactor\<close> are \<open>0\<close>, after any finite sequence of
  handler calls (wheel, touch start, touch move, touch end, timer, arrow key; press, drag
  move, release) and of frame updates that each measure \<open>deltaTime > 0\<close>, both factors are
  numbers in \<open>[0, 1]\<close>, and \<open>currentDistortionFactor\<close> is at most one of the values that
  \<open>targetDistortionFactor\<close> had after a callback of the run, hence at most their maximum. This
  holds in \<open>ThreeSliderDraggable\<close> and in \<open>ThreeSlider\<close>.
\<close>

theorem distortion_bounds:
  "(targetDistortionFactor s = Fin 0 \<and> currentDistortionFactor s = Fin 0
      \<and> drag_positive_frames cfg s es \<longrightarrow>
      in_unit (targetDistortionFactor (drag_run cfg s es))
      \<and> in_unit (currentDistortionFactor (drag_run cfg s es))
      \<and> (\<exists>m \<in> set (drag_targets cfg s es). jle (currentDistortionFactor (drag_run cfg s es)) m))
   \<and> (targetDistortionFactor t = Fin 0 \<and> currentDistortionFactor t = Fin 0
      \<and> slider_positive_frames t fs \<longrightarrow>
      in_unit (targetDistortionFactor (slider_run t fs))
      \<and> in_unit (currentDistortionFactor (slider_run t fs))
      \<and> (\<exists>m \<in> set (slider_targets t fs). jle (currentDistortionFactor (slider_run t fs)) m))"
proof (intro conjI impI)
  assume a: "targetDistortionFactor s = Fin 0 \<and> currentDistortionFactor s = Fin 0
      \<and> drag_positive_frames cfg s es"
  then have u: "in_unit (targetDistortionFactor s)" "in_unit (currentDistortionFactor s)"
    and b: "jle (currentDistortionFactor s) (targetDistortionFactor s)"
    by simp_all
  from a have p: "drag_positive_frames cfg s es" by simp
  note r = drag_run_unit [OF u p b]
  from r show "in_unit (targetDistortionFactor (drag_run cfg s es))" by simp
  from r show "in_unit (currentDistortionFactor (drag_run cfg s es))" by simp
  from r drag_targets_head [of s cfg es]
  show "\<exists>m \<in> set (drag_targets cfg s es). jle (currentDistortionFactor (drag_run cfg s es)) m"
    by auto
next
  assume a: "targetDistortionFactor t = Fin 0 \<and> currentDistortionFactor t = Fin 0
      \<and> slider_positive_frames t fs"
  then have u: "in_unit (targetDistortionFactor t)" "in_unit (currentDistortionFactor t)"
    and b: "jle (currentDistortionFactor t) (targetDistortionFactor t)"
    by simp_all
  from a have p: "slider_positive_frames t fs" by simp
  note r = slider_run_unit [OF u p b]
  from r show "in_unit (targetDistortionFactor (slider_run t fs))" by simp
  from r show "in_unit (currentDistortionFactor (slider_run t fs))" by simp
  from r slider_targets_head [of t fs]
  show "\<exists>m \<in> set (slider_targets t fs). jle (currentDistortionFactor (slider_run t fs)) m"
    by auto
qed

theorem distortion_bounds_witness:
  "targetDistortionFactor (drag_mount default_config centre_vertex 1000) = Fin 0
   \<and> currentDistortionFactor (drag_mount default_config centre_vertex 1000) = Fin 0
   \<and> drag_positive_frames default_config (drag_mount default_config centre_vertex 1000)
        [MouseDown True 500, DragFrame 1016, MouseMove 300, DragFrame 1032, MouseUpOrLeave,
         DragKeyDown ArrowRight, DragFrame 1048]
   \<and> in_unit (targetDistortionFactor
        (drag_run default_config (drag_mount default_config centre_vertex 1000)
          [MouseDown True 500, DragFrame 1016, MouseMove 300, DragFrame 1032, MouseUpOrLeave,
           DragKeyDown ArrowRight, DragFrame 1048]))
   \<and> in_unit (currentDistortionFactor
        (drag_run default_config (drag_mount default_config centre_vertex 1000)
          [MouseDown True 500, DragFrame 1016, MouseMove 300, DragFrame 1032, MouseUpOrLeave,
           DragKeyDown ArrowRight, DragFrame 1048]))
   \<and> targetDistortionFactor (slider_mount centre_vertex 1000) = Fin 0
   \<and> currentDistortionFactor (slider_mount centre_vertex 1000) = Fin 0
   \<and> slider_positive_frames (slider_mount centre_vertex 1000)
        [Wheel 500, Frame 1016, TouchStart 10, TouchMove 200, Frame 1032, TouchEnd, ScrollTimeout]
   \<and> in_unit (currentDistortionFactor
        (slider_run (slider_mount centre_vertex 1000)
          [Wheel 500, Frame 1016, TouchStart 10, TouchMove 200, Frame 1032, TouchEnd,
           ScrollTimeout]))"
proof -
  let ?s = "drag_mount default_config centre_vertex 1000"
  let ?es = "[MouseDown True 500, DragFrame 1016, MouseMove 300, DragFrame 1032, MouseUpOrLeave,
         DragKeyDown ArrowRight, DragFrame 1048]"
  let ?t = "slider_mount centre_vertex 1000"
  let ?fs = "[Wheel 500, Frame 1016, TouchStart 10, TouchMove 200, Frame 1032, TouchEnd, ScrollTimeout]"
  have z: "targetDistortionFactor ?s = Fin 0" "currentDistortionFactor ?s = Fin 0"
    "targetDistortionFactor ?t = Fin 0" "currentDistortionFactor ?t = Fin 0"
    by (simp_all add: drag_mount_def slider_mount_def)
  have p: "drag_positive_frames default_config ?s ?es"
    by (simp add: drag_animate_fields handleMouseDown_def handleMouseMove_def
        handleMouseUpOrLeave_def handleKeyDown_def Let_def deltaTime_def drag_mount_def)
  have q: "slider_positive_frames ?t ?fs"
    by (simp add: slider_animate_fields handleWheel_def handleTouchStart_def
        handleTouchMove_def handleTouchEnd_def scrollTimeout_def Let_def deltaTime_def
        slider_mount_def)
  show ?thesis
    using z p q distortion_bounds [of ?s default_config ?es ?t ?fs] by blast
qed


section \<open>Periodicity of the wrap layout in double precision\<close>






































end
